theory Spec2Isabelle
  imports Main "HOL-Library.Word"
begin

unbundle bit_operations_syntax

section \<open>HDMI driver: scanline builder, colour lookup table, palette and fade\<close>

text \<open>
  The driver (the first file of \<^verbatim>\<open>src/unnamed/part_000\<close>) keeps its state in file-level
  globals. The model collects them in records and passes the record through every
  function. C's \<^verbatim>\<open>uint8_t\<close>, \<^verbatim>\<open>uint16_t\<close>, \<^verbatim>\<open>uint32_t\<close> and \<^verbatim>\<open>uint64_t\<close> are words of
  that width; an expression that C computes in \<^verbatim>\<open>int\<close> after integer promotion is
  computed in \<open>32 word\<close> and cast back where C stores it.
\<close>

type_synonym uint8_t = "8 word"
type_synonym uint16_t = "16 word"
type_synonym uint32_t = "32 word"
type_synonym uint64_t = "64 word"

subsection \<open>Reserved control indices\<close>

abbreviation (input) BASE_HDMI_CTRL_INX :: nat where
  "BASE_HDMI_CTRL_INX \<equiv> 240"

abbreviation (input) HDMI_CTRL_COUNT :: nat where
  "HDMI_CTRL_COUNT \<equiv> 4"

abbreviation (input) SCREEN_WIDTH :: nat where
  "SCREEN_WIDTH \<equiv> 320"

text \<open>
  The test \<^verbatim>\<open>i >= BASE_HDMI_CTRL_INX && i < (BASE_HDMI_CTRL_INX + HDMI_CTRL_COUNT)\<close>,
  which the driver writes out at every use.
\<close>

definition is_hdmi_ctrl_inx :: "nat \<Rightarrow> bool" where
  "is_hdmi_ctrl_inx i \<longleftrightarrow> i \<ge> BASE_HDMI_CTRL_INX \<and> i < BASE_HDMI_CTRL_INX + HDMI_CTRL_COUNT"

subsection \<open>Scanline builder: the active pixel region\<close>

text \<open>
  \<^verbatim>\<open>dma_handler_HDMI\<close>, for a line inside the picture (\<^verbatim>\<open>line < mode.h_width\<close>), writes
  \<^verbatim>\<open>SCREEN_WIDTH\<close> bytes at \<^verbatim>\<open>activ_buf + 72\<close>. The frame buffer belongs to the caller: it is
  a pointer (\<open>None\<close> is \<^verbatim>\<open>NULL\<close>) into memory, modelled as a function from the byte offset
  relative to that pointer to the byte stored there. The enumeration
  \<^verbatim>\<open>graphics_mode_t\<close> is declared in a header that is not part of the sources; the
  handler only distinguishes \<^verbatim>\<open>GRAPHICSMODE_DEFAULT\<close> from every other mode.
\<close>

datatype graphics_mode_t = GRAPHICSMODE_DEFAULT | GRAPHICSMODE_OTHER nat

record frame_source =
  graphics_buffer :: "(int \<Rightarrow> uint8_t) option"
  graphics_buffer_width :: int
  graphics_buffer_height :: int
  graphics_buffer_shift_x :: int
  graphics_buffer_shift_y :: int
  hdmi_graphics_mode :: graphics_mode_t
  g_hdmi_loading_mode :: bool

text \<open>\<^verbatim>\<open>get_line_buffer\<close>: the offset of the line's first byte, or \<open>None\<close> for \<^verbatim>\<open>NULL\<close>.\<close>

definition get_line_buffer :: "frame_source \<Rightarrow> int \<Rightarrow> int option" where
  "get_line_buffer fs line =
     (if graphics_buffer fs = None then None
      else if line < 0 \<or> line \<ge> graphics_buffer_height fs then None
      else Some (line * graphics_buffer_width fs))"

text \<open>
  The guard both pixel loops apply to a byte read from the frame buffer:
  \<^verbatim>\<open>(c >= BASE_HDMI_CTRL_INX && c < (BASE_HDMI_CTRL_INX + HDMI_CTRL_COUNT)) ? 255 : c\<close>.
\<close>

definition remap_ctrl_inx :: "uint8_t \<Rightarrow> uint8_t" where
  "remap_ctrl_inx c = (if is_hdmi_ctrl_inx (unat c) then 255 else c)"

text \<open>
  The bytes written to the active pixel region for scanline counter \<open>line\<close>. In
  \<^verbatim>\<open>GRAPHICSMODE_DEFAULT\<close> the left border loop writes \<^verbatim>\<open>graphics_buffer_shift_x\<close> bytes
  when that is positive; the \<^verbatim>\<open>while\<close> loop then fills the rest of the region. Its test
  \<^verbatim>\<open>input_buffer < input_buffer_end\<close> compares two pointers the loop never changes (only
  the index \<^verbatim>\<open>x\<close> advances), so it has the same outcome in every iteration.
\<close>

definition active_pixels :: "frame_source \<Rightarrow> nat \<Rightarrow> uint8_t list" where
  "active_pixels fs line =
     (if g_hdmi_loading_mode fs then replicate SCREEN_WIDTH 255
      else
        let y = int (line div 2) in
        case get_line_buffer fs y of
          None \<Rightarrow> replicate SCREEN_WIDTH 255
        | Some input_buffer \<Rightarrow>
            let mem = the (graphics_buffer fs) in
            (case hdmi_graphics_mode fs of
               GRAPHICSMODE_DEFAULT \<Rightarrow>
                 if graphics_buffer_shift_y fs > y
                    \<or> y \<ge> graphics_buffer_shift_y fs + graphics_buffer_height fs
                    \<or> graphics_buffer_shift_x fs \<ge> int SCREEN_WIDTH
                    \<or> graphics_buffer_shift_x fs + graphics_buffer_width fs < 0
                 then replicate SCREEN_WIDTH 255
                 else
                   let left = replicate (nat (graphics_buffer_shift_x fs)) (255 :: uint8_t);
                       input_buffer_end = input_buffer + graphics_buffer_width fs;
                       input_buffer' =
                         (if graphics_buffer_shift_x fs < 0
                          then input_buffer - graphics_buffer_shift_x fs
                          else input_buffer)
                   in left @
                      map (\<lambda>x. if input_buffer' < input_buffer_end
                                then remap_ctrl_inx (mem (input_buffer' + int x))
                                else 255)
                        [0 ..< SCREEN_WIDTH - length left]
             | GRAPHICSMODE_OTHER _ \<Rightarrow>
                 map (\<lambda>i. remap_ctrl_inx (mem (input_buffer + int i))) [0 ..< SCREEN_WIDTH]))"

subsection \<open>TMDS encoding of a colour\<close>

text \<open>
  \<^verbatim>\<open>tmds_encoder\<close>: \<open>s1\<close> counts the set bits of \<open>d8\<close>; \<open>d_out\<close> and \<open>qi\<close> are
  \<^verbatim>\<open>uint16_t\<close>, the right-hand side of \<^verbatim>\<open>d_out |= ...\<close> is an \<^verbatim>\<open>int\<close> expression. The loop
  body is \<open>tmds_step\<close>, run for \<open>i = 1, ..., 7\<close>.
\<close>

definition tmds_step :: "uint8_t \<Rightarrow> bool \<Rightarrow> uint16_t \<times> uint16_t \<Rightarrow> nat \<Rightarrow> uint16_t \<times> uint16_t" where
  "tmds_step d8 is_xnor st i =
     (let d_out = fst st; qi = snd st;
          rhs = (push_bit 1 (ucast qi :: uint32_t) XOR (ucast d8 AND push_bit i 1))
                  XOR push_bit i (of_bool is_xnor);
          d_out' = ucast ((ucast d_out :: uint32_t) OR rhs) :: uint16_t;
          qi' = ucast ((ucast d_out' :: uint32_t) AND push_bit i 1) :: uint16_t
      in (d_out', qi'))"

definition tmds_encoder :: "uint8_t \<Rightarrow> uint32_t" where
  "tmds_encoder d8 =
     (let s1 = length (filter (\<lambda>i. (ucast d8 AND (push_bit i 1 :: uint32_t)) \<noteq> 0) [0 ..< 8]);
          is_xnor = (s1 > 4 \<or> (s1 = 4 \<and> (ucast d8 AND (1 :: uint32_t)) = 0));
          d_out0 = ucast (ucast d8 AND (1 :: uint32_t)) :: uint16_t;
          d_out = fst (foldl (tmds_step d8 is_xnor) (d_out0, d_out0) [1 ..< 8]);
          d_out' = (if is_xnor
                    then ucast ((ucast d_out :: uint32_t) OR push_bit 9 1)
                    else ucast ((ucast d_out :: uint32_t) OR push_bit 8 1)) :: uint16_t
      in ucast d_out')"

text \<open>
  The board header is not part of the sources. Its two pin-order macros and the
  \<^verbatim>\<open>PICO_PC\<close> switch, which select branches of \<^verbatim>\<open>get_ser_diff_data\<close> at compile time, are
  parameters of the model.
\<close>

record board_config =
  PICO_PC :: bool
  HDMI_PIN_invert_diffpairs :: bool
  HDMI_PIN_RGB_notBGR :: bool

text \<open>One bit as a differential pair: \<^verbatim>\<open>b |= (b ^ 1) << 1\<close>, then the optional inversion.\<close>

definition diff_pair :: "board_config \<Rightarrow> uint8_t \<Rightarrow> uint8_t" where
  "diff_pair cfg b =
     (let b1 = ucast ((ucast b :: uint32_t) OR push_bit 1 (ucast b XOR 1)) :: uint8_t
      in if HDMI_PIN_invert_diffpairs cfg then ucast ((ucast b1 :: uint32_t) XOR 3) else b1)"

definition ser_diff_step ::
  "board_config \<Rightarrow> uint16_t \<Rightarrow> uint16_t \<Rightarrow> uint16_t \<Rightarrow> uint64_t \<Rightarrow> nat \<Rightarrow> uint64_t" where
  "ser_diff_step cfg dataR dataG dataB out64 i =
     (let o1 = push_bit 6 out64;
          o2 = (if i = 5 then push_bit 2 o1 else o1);
          bit_of = (\<lambda>d :: uint16_t. ucast (drop_bit (9 - i) (ucast d :: uint32_t) AND 1) :: uint8_t);
          bR = (if PICO_PC cfg then bit_of dataG else bit_of dataR);
          bG = (if PICO_PC cfg then bit_of dataR else bit_of dataG);
          bB = bit_of dataB;
          bR' = diff_pair cfg bR;
          bG' = diff_pair cfg bG;
          bB' = diff_pair cfg bB;
          d6 = (if HDMI_PIN_RGB_notBGR cfg
                then ucast (push_bit 4 (ucast bR' :: uint32_t) OR push_bit 2 (ucast bG') OR ucast bB')
                else ucast (push_bit 4 (ucast bB' :: uint32_t) OR push_bit 2 (ucast bG') OR ucast bR'))
               :: uint8_t
      in o2 OR ucast d6)"

definition get_ser_diff_data :: "board_config \<Rightarrow> uint16_t \<Rightarrow> uint16_t \<Rightarrow> uint16_t \<Rightarrow> uint64_t" where
  "get_ser_diff_data cfg dataR dataG dataB =
     foldl (ser_diff_step cfg dataR dataG dataB) 0 [0 ..< 10]"

text \<open>
  The encoded entry of a 24-bit colour, as both palette functions compute it:
  \<^verbatim>\<open>get_ser_diff_data(tmds_encoder(R), tmds_encoder(G), tmds_encoder(B))\<close>, the
  encoder's \<^verbatim>\<open>uint\<close> result narrowed to the \<^verbatim>\<open>uint16_t\<close> parameters.
\<close>

definition encode_color :: "board_config \<Rightarrow> uint32_t \<Rightarrow> uint64_t" where
  "encode_color cfg color =
     (let R = ucast (drop_bit 16 color AND 0xff) :: uint8_t;
          G = ucast (drop_bit 8 color AND 0xff) :: uint8_t;
          B = ucast (drop_bit 0 color AND 0xff) :: uint8_t
      in get_ser_diff_data cfg (ucast (tmds_encoder R)) (ucast (tmds_encoder G))
           (ucast (tmds_encoder B)))"

subsection \<open>Driver state\<close>

text \<open>
  \<^verbatim>\<open>conv_color_a\<close> and \<^verbatim>\<open>conv_color_b\<close> are \<^verbatim>\<open>uint32_t[1224]\<close>; the palette functions
  access them through a \<^verbatim>\<open>uint64_t *\<close>, so the model holds each as the list of its 612
  64-bit words. Words 0 to 511 are the lookup table (\<^verbatim>\<open>1024 * sizeof(uint32_t)\<close> bytes,
  two words per palette index), words 512 to 611 the two line buffers.
  \<^verbatim>\<open>conv_color_front\<close> always points to \<^verbatim>\<open>conv_color_a\<close> and \<^verbatim>\<open>conv_color_back\<close> to
  \<^verbatim>\<open>conv_color_b\<close>: the pointers are initialised so and never assigned.
\<close>

record hdmi_state =
  palette :: "uint32_t list"
  palette_original :: "uint32_t list"
  g_hdmi_fade_level :: uint8_t
  g_hdmi_fade_rows :: uint16_t
  conv_color_front :: "uint64_t list"
  conv_color_back :: "uint64_t list"
  conv_color_dirty :: bool
  conv_color_swap_count :: uint32_t

text \<open>The array sizes the C declarations fix.\<close>

definition hdmi_state_ok :: "hdmi_state \<Rightarrow> bool" where
  "hdmi_state_ok s \<longleftrightarrow>
     length (palette s) = 256 \<and> length (palette_original s) = 256 \<and>
     length (conv_color_front s) = 612 \<and> length (conv_color_back s) = 612"

text \<open>\<^verbatim>\<open>vsync_swap_buffers\<close>: \<^verbatim>\<open>memcpy\<close> of the first 1024 \<^verbatim>\<open>uint32_t\<close>, that is 512 words.\<close>

definition vsync_swap_buffers :: "hdmi_state \<Rightarrow> hdmi_state" where
  "vsync_swap_buffers s =
     (if conv_color_dirty s
      then s\<lparr>conv_color_front := take 512 (conv_color_back s) @ drop 512 (conv_color_front s),
             conv_color_dirty := False,
             conv_color_swap_count := conv_color_swap_count s + 1\<rparr>
      else s)"

subsection \<open>Fade\<close>

definition fade_gamma_table :: "uint8_t list" where
  "fade_gamma_table =
     [255, 253, 251, 249, 247, 245, 243, 241,
      239, 236, 234, 231, 229, 226, 223, 220,
      217, 214, 211, 208, 204, 201, 197, 193,
      189, 185, 181, 176, 172, 167, 162, 156,
      151, 145, 139, 133, 126, 119, 112, 104,
      96,  88,  79,  69,  59,  48,  36,  23,
      0,   0,   0,   0,   0,   0,   0,   0,
      0,   0,   0,   0,   0,   0,   0,   0]"

text \<open>
  \<^verbatim>\<open>apply_fade_to_color\<close>. The table is read only for levels 1 to 47. Each product
  \<^verbatim>\<open>r * scale\<close> is an \<^verbatim>\<open>int\<close>, shifted and stored back into a \<^verbatim>\<open>uint8_t\<close>.
\<close>

definition apply_fade_to_color :: "uint32_t \<Rightarrow> uint8_t \<Rightarrow> uint32_t" where
  "apply_fade_to_color color888 fade_level =
     (if fade_level = 0 then color888
      else if unat fade_level \<ge> 48 then 0
      else
        let r = ucast (drop_bit 16 color888 AND 0xff) :: uint8_t;
            g = ucast (drop_bit 8 color888 AND 0xff) :: uint8_t;
            b = ucast (drop_bit 0 color888 AND 0xff) :: uint8_t;
            scale = ucast (fade_gamma_table ! unat fade_level) :: uint16_t;
            r' = ucast (drop_bit 8 ((ucast r :: uint32_t) * ucast scale)) :: uint8_t;
            g' = ucast (drop_bit 8 ((ucast g :: uint32_t) * ucast scale)) :: uint8_t;
            b' = ucast (drop_bit 8 ((ucast b :: uint32_t) * ucast scale)) :: uint8_t
        in push_bit 16 (ucast r') OR push_bit 8 (ucast g') OR ucast b')"

text \<open>The mask test \<^verbatim>\<open>rows & (1 << row)\<close>, an \<^verbatim>\<open>int\<close> used as a truth value.\<close>

definition row_selected :: "uint16_t \<Rightarrow> nat \<Rightarrow> bool" where
  "row_selected rows row \<longleftrightarrow> ((ucast rows :: uint32_t) AND push_bit row 1) \<noteq> 0"

subsection \<open>Palette writes\<close>

text \<open>
  \<^verbatim>\<open>graphics_set_palette_hdmi\<close>. The second word is computed from the first as read back
  from the array: \<^verbatim>\<open>conv_color64[i * 2 + 1] = conv_color64[i * 2] ^ 0x0003ffffffffffffl\<close>.
\<close>

definition graphics_set_palette_hdmi ::
  "board_config \<Rightarrow> uint8_t \<Rightarrow> uint32_t \<Rightarrow> hdmi_state \<Rightarrow> hdmi_state" where
  "graphics_set_palette_hdmi cfg i color888 s =
     (let s1 = s\<lparr>palette_original := (palette_original s)[unat i := color888 AND 0x00ffffff]\<rparr>;
          row = unat i div 16;
          faded_color0 = color888 AND 0x00ffffff;
          faded_color =
            (if unat (g_hdmi_fade_level s1) > 0
             then
               let should_fade = (unat (g_hdmi_fade_level s1) \<ge> 64
                                   \<or> g_hdmi_fade_rows s1 = 0
                                   \<or> row_selected (g_hdmi_fade_rows s1) row)
               in if should_fade then apply_fade_to_color faded_color0 (g_hdmi_fade_level s1)
                  else faded_color0
             else faded_color0);
          s2 = s1\<lparr>palette := (palette s1)[unat i := faded_color]\<rparr>
      in if is_hdmi_ctrl_inx (unat i) then s2
         else
           let conv1 = (conv_color_back s2)[unat i * 2 := encode_color cfg faded_color];
               conv2 = conv1[unat i * 2 + 1 := (conv1 ! (unat i * 2)) XOR 0x0003ffffffffffff]
           in s2\<lparr>conv_color_back := conv2, conv_color_dirty := True\<rparr>)"

text \<open>
  The value of the local \<^verbatim>\<open>faded_color\<close> of \<^verbatim>\<open>graphics_set_palette_hdmi\<close> at the point
  where it is stored in \<^verbatim>\<open>palette[i]\<close> and encoded, as a function of the two fade globals
  and of the arguments.
\<close>

definition faded_color :: "hdmi_state \<Rightarrow> uint8_t \<Rightarrow> uint32_t \<Rightarrow> uint32_t" where
  "faded_color s i color888 =
     (if unat (g_hdmi_fade_level s) > 0 \<and>
         (unat (g_hdmi_fade_level s) \<ge> 64 \<or> g_hdmi_fade_rows s = 0
          \<or> row_selected (g_hdmi_fade_rows s) (unat i div 16))
      then apply_fade_to_color (color888 AND 0x00ffffff) (g_hdmi_fade_level s)
      else color888 AND 0x00ffffff)"

text \<open>\<^verbatim>\<open>graphics_set_palette\<close>, the wrapper the collaborators call.\<close>

definition graphics_set_palette ::
  "board_config \<Rightarrow> uint8_t \<Rightarrow> uint32_t \<Rightarrow> hdmi_state \<Rightarrow> hdmi_state" where
  "graphics_set_palette cfg i color888 s = graphics_set_palette_hdmi cfg i color888 s"

text \<open>
  \<^verbatim>\<open>graphics_restore_sync_colors\<close>: the eight words of indices 240 to 243, written to
  the back and to the front buffer.
\<close>

definition write_sync_words :: "board_config \<Rightarrow> uint64_t list \<Rightarrow> uint64_t list" where
  "write_sync_words cfg conv =
     (let b0 = 0b1101010100; b1 = 0b0010101011; b2 = 0b0101010100; b3 = 0b1010101011;
          base_inx = BASE_HDMI_CTRL_INX
      in conv[2 * base_inx + 0 := get_ser_diff_data cfg b0 b0 b3,
              2 * base_inx + 1 := get_ser_diff_data cfg b0 b0 b3,
              2 * (base_inx + 1) + 0 := get_ser_diff_data cfg b0 b0 b2,
              2 * (base_inx + 1) + 1 := get_ser_diff_data cfg b0 b0 b2,
              2 * (base_inx + 2) + 0 := get_ser_diff_data cfg b0 b0 b1,
              2 * (base_inx + 2) + 1 := get_ser_diff_data cfg b0 b0 b1,
              2 * (base_inx + 3) + 0 := get_ser_diff_data cfg b0 b0 b0,
              2 * (base_inx + 3) + 1 := get_ser_diff_data cfg b0 b0 b0])"

definition graphics_restore_sync_colors :: "board_config \<Rightarrow> hdmi_state \<Rightarrow> hdmi_state" where
  "graphics_restore_sync_colors cfg s =
     s\<lparr>conv_color_back := write_sync_words cfg (conv_color_back s),
       conv_color_front := write_sync_words cfg (conv_color_front s)\<rparr>"

text \<open>
  \<^verbatim>\<open>graphics_set_fade_level\<close>. \<open>fade_entry\<close> is the body of its loop over
  \<open>i = 0, ..., 255\<close>; the loop uses the function's arguments, not the globals.
\<close>

definition fade_entry ::
  "board_config \<Rightarrow> uint8_t \<Rightarrow> uint16_t \<Rightarrow> hdmi_state \<Rightarrow> nat \<Rightarrow> hdmi_state" where
  "fade_entry cfg fade_level which_rows s i =
     (if is_hdmi_ctrl_inx i then s
      else
        let row = i div 16;
            color0 = palette_original s ! i;
            color =
              (if unat fade_level > 0
               then
                 let should_fade = (unat fade_level \<ge> 48 \<or> which_rows = 0
                                     \<or> row_selected which_rows row)
                 in if should_fade then apply_fade_to_color color0 fade_level else color0
               else color0);
            s1 = s\<lparr>palette := (palette s)[i := color]\<rparr>;
            conv1 = (conv_color_back s1)[i * 2 := encode_color cfg color];
            conv2 = conv1[i * 2 + 1 := (conv1 ! (i * 2)) XOR 0x0003ffffffffffff]
        in s1\<lparr>conv_color_back := conv2\<rparr>)"

definition graphics_set_fade_level ::
  "board_config \<Rightarrow> uint8_t \<Rightarrow> uint16_t \<Rightarrow> hdmi_state \<Rightarrow> hdmi_state" where
  "graphics_set_fade_level cfg fade_level which_rows s =
     (let s1 = s\<lparr>g_hdmi_fade_level := fade_level, g_hdmi_fade_rows := which_rows\<rparr>;
          s2 = foldl (fade_entry cfg fade_level which_rows) s1 [0 ..< 256];
          s3 = graphics_restore_sync_colors cfg s2
      in s3\<lparr>conv_color_dirty := True\<rparr>)"

text \<open>Runs of calls, in program order.\<close>

definition palette_writes ::
  "board_config \<Rightarrow> (uint8_t \<times> uint32_t) list \<Rightarrow> hdmi_state \<Rightarrow> hdmi_state" where
  "palette_writes cfg ws s = foldl (\<lambda>t w. graphics_set_palette_hdmi cfg (fst w) (snd w) t) s ws"

definition fade_calls ::
  "board_config \<Rightarrow> (uint8_t \<times> uint16_t) list \<Rightarrow> hdmi_state \<Rightarrow> hdmi_state" where
  "fade_calls cfg cs s = foldl (\<lambda>t c. graphics_set_fade_level cfg (fst c) (snd c) t) s cs"

text \<open>A board and the driver's state at power-up (C zero-initialises the globals).\<close>

definition board0 :: board_config where
  "board0 = \<lparr>PICO_PC = False, HDMI_PIN_invert_diffpairs = False, HDMI_PIN_RGB_notBGR = True\<rparr>"

definition hdmi_init_state :: hdmi_state where
  "hdmi_init_state =
     \<lparr>palette = replicate 256 0, palette_original = replicate 256 0,
      g_hdmi_fade_level = 0, g_hdmi_fade_rows = 0,
      conv_color_front = replicate 612 0, conv_color_back = replicate 612 0,
      conv_color_dirty = False, conv_color_swap_count = 0\<rparr>"

section \<open>Storage scheduler, cooperative pump variant\<close>

text \<open>
  The pump-based \<^verbatim>\<open>sd_async\<close> implementation (the second file of
  \<^verbatim>\<open>src/src/SDL_port.c\<close>). A stream handle is a pointer to a slot; \<open>None\<close> is \<^verbatim>\<open>NULL\<close>. The
  \<^verbatim>\<open>int\<close> counters are integers (they stay within the buffer size of 8192 bytes), the
  \<^verbatim>\<open>size_t\<close> values are naturals. The FatFS file object behind \<^verbatim>\<open>FIL *\<close> belongs to an
  external library and is an opaque handle here; the result code of a FatFS call is an
  argument of the function that makes the call.
\<close>

type_synonym FIL = nat

datatype FRESULT = FR_OK | FR_ERR nat

datatype stream_state_t =
    STREAM_STATE_CLOSED
  | STREAM_STATE_FILLING_A
  | STREAM_STATE_FILLING_B
  | STREAM_STATE_READY
  | STREAM_STATE_EOF
  | STREAM_STATE_ERROR

record sd_async_stream =
  state :: stream_state_t
  file_p :: "FIL option"
  file_size :: nat
  file_pos :: nat
  buffer_a :: "uint8_t list"
  buffer_b :: "uint8_t list"
  buffer_a_valid :: int
  buffer_b_valid :: int
  buffer_a_consumed :: int
  buffer_b_consumed :: int
  active_buffer :: int
  fill_offset :: int
  slot :: int

abbreviation (input) SD_ASYNC_STREAM_BUFFER_BYTES :: nat where
  "SD_ASYNC_STREAM_BUFFER_BYTES \<equiv> 2048 * 4"

text \<open>
  The end of \<^verbatim>\<open>sd_async_stream_read\<close>, from the second test of \<^verbatim>\<open>available\<close> on. At that
  point \<^verbatim>\<open>buf\<close>, \<^verbatim>\<open>valid\<close> and \<^verbatim>\<open>consumed\<close> point into buffer A exactly when
  \<^verbatim>\<open>stream->active_buffer\<close> is 0, before a swap and after it. \<^verbatim>\<open>memcpy\<close> overwrites the
  first \<open>to_copy\<close> bytes of the destination; a \<^verbatim>\<open>NULL\<close> destination holds nothing to
  observe and stays \<open>None\<close>.
\<close>

definition stream_read_copy ::
  "sd_async_stream \<Rightarrow> int \<Rightarrow> uint8_t list option \<Rightarrow> nat
     \<Rightarrow> int \<times> uint8_t list option \<times> sd_async_stream option" where
  "stream_read_copy s available dest max_bytes =
     (if available \<le> 0
      then (if state s = STREAM_STATE_EOF then - 1 else 0, dest, Some s)
      else
        let to_copy = (if max_bytes < nat available then max_bytes else nat available);
            buf = (if active_buffer s = 0 then buffer_a s else buffer_b s);
            consumed = (if active_buffer s = 0 then buffer_a_consumed s else buffer_b_consumed s);
            dest' = map_option (\<lambda>d. take to_copy (drop (nat consumed) buf) @ drop to_copy d) dest;
            s' = (if active_buffer s = 0
                  then s\<lparr>buffer_a_consumed := buffer_a_consumed s + int to_copy\<rparr>
                  else s\<lparr>buffer_b_consumed := buffer_b_consumed s + int to_copy\<rparr>)
        in (int to_copy, dest', Some s'))"

definition sd_async_stream_read ::
  "sd_async_stream option \<Rightarrow> uint8_t list option \<Rightarrow> nat
     \<Rightarrow> int \<times> uint8_t list option \<times> sd_async_stream option" where
  "sd_async_stream_read stream dest max_bytes =
     (case stream of
        None \<Rightarrow> (- 1, dest, None)
      | Some s \<Rightarrow>
          if state s = STREAM_STATE_ERROR then (- 1, dest, Some s)
          else if state s = STREAM_STATE_CLOSED then (- 1, dest, Some s)
          else
            let available = (if active_buffer s = 0
                             then buffer_a_valid s - buffer_a_consumed s
                             else buffer_b_valid s - buffer_b_consumed s)
            in if available \<le> 0
               then
                 let other = 1 - active_buffer s;
                     other_valid = (if other = 0 then buffer_a_valid s else buffer_b_valid s)
                 in if other_valid > 0
                    then
                      let s1 = (if active_buffer s = 0
                                then s\<lparr>buffer_a_valid := 0, buffer_a_consumed := 0\<rparr>
                                else s\<lparr>buffer_b_valid := 0, buffer_b_consumed := 0\<rparr>);
                          s2 = s1\<lparr>active_buffer := other\<rparr>;
                          available' = (if other = 0
                                        then buffer_a_valid s2 - buffer_a_consumed s2
                                        else buffer_b_valid s2 - buffer_b_consumed s2)
                      in stream_read_copy s2 available' dest max_bytes
                    else if state s = STREAM_STATE_EOF then (- 1, dest, Some s)
                    else (0, dest, Some s)
               else stream_read_copy s available dest max_bytes)"

definition sd_async_stream_available :: "sd_async_stream option \<Rightarrow> int" where
  "sd_async_stream_available stream =
     (case stream of
        None \<Rightarrow> 0
      | Some s \<Rightarrow>
          if active_buffer s = 0 then buffer_a_valid s - buffer_a_consumed s
          else buffer_b_valid s - buffer_b_consumed s)"

definition sd_async_stream_eof :: "sd_async_stream option \<Rightarrow> bool" where
  "sd_async_stream_eof stream =
     (case stream of
        None \<Rightarrow> True
      | Some s \<Rightarrow> state s = STREAM_STATE_EOF \<and> sd_async_stream_available stream \<le> 0)"

text \<open>
  \<^verbatim>\<open>sd_async_stream_seek\<close>; \<open>fr\<close> is what \<^verbatim>\<open>f_lseek\<close> returns. The function does not look
  at \<^verbatim>\<open>stream->state\<close> before it calls \<^verbatim>\<open>f_lseek\<close>.
\<close>

definition sd_async_stream_seek ::
  "sd_async_stream option \<Rightarrow> nat \<Rightarrow> FRESULT \<Rightarrow> int \<times> sd_async_stream option" where
  "sd_async_stream_seek stream position fr =
     (case stream of
        None \<Rightarrow> (- 1, None)
      | Some s \<Rightarrow>
          if file_p s = None then (- 1, Some s)
          else if fr \<noteq> FR_OK then (- 1, Some (s\<lparr>state := STREAM_STATE_ERROR\<rparr>))
          else
            let s1 = s\<lparr>file_pos := position,
                       buffer_a_valid := 0, buffer_b_valid := 0,
                       buffer_a_consumed := 0, buffer_b_consumed := 0,
                       active_buffer := 0, fill_offset := 0\<rparr>
            in if position < file_size s1
               then (0, Some (s1\<lparr>state := STREAM_STATE_FILLING_A\<rparr>))
               else (0, Some (s1\<lparr>state := STREAM_STATE_EOF\<rparr>)))"

text \<open>The unread bytes of each buffer, for stating what a read may return.\<close>

definition unread_a :: "sd_async_stream \<Rightarrow> int" where
  "unread_a s = buffer_a_valid s - buffer_a_consumed s"

definition unread_b :: "sd_async_stream \<Rightarrow> int" where
  "unread_b s = buffer_b_valid s - buffer_b_consumed s"

text \<open>The unread bytes of the buffer that is not the active one.\<close>

definition unread_other :: "sd_async_stream \<Rightarrow> int" where
  "unread_other s = (if 1 - active_buffer s = 0 then unread_a s else unread_b s)"

section \<open>Storage scheduler, worker variant\<close>

text \<open>
  The implementation with a worker on the second core (the third file of
  \<^verbatim>\<open>src/src/SDL_port.c\<close>). Its enumeration has two states more, its stream structure
  keeps the path and a seek target instead of a fill offset. Names that the pump variant
  already uses carry the suffix \<open>_w\<close>.
\<close>

datatype stream_state_t_w =
    STREAM_STATE_CLOSED_w
  | STREAM_STATE_OPENING_w
  | STREAM_STATE_FILLING_A_w
  | STREAM_STATE_FILLING_B_w
  | STREAM_STATE_READY_w
  | STREAM_STATE_SEEKING_w
  | STREAM_STATE_EOF_w
  | STREAM_STATE_ERROR_w

record sd_async_stream_w =
  state_w :: stream_state_t_w
  file_w :: "FIL option"
  file_size_w :: nat
  file_pos_w :: nat
  buffer_a_w :: "uint8_t list"
  buffer_b_w :: "uint8_t list"
  buffer_a_valid_w :: int
  buffer_b_valid_w :: int
  buffer_a_consumed_w :: int
  buffer_b_consumed_w :: int
  active_buffer_w :: int
  path_w :: string
  seek_target_w :: nat
  slot_w :: int

definition stream_read_copy_w ::
  "sd_async_stream_w \<Rightarrow> int \<Rightarrow> uint8_t list option \<Rightarrow> nat
     \<Rightarrow> int \<times> uint8_t list option \<times> sd_async_stream_w option" where
  "stream_read_copy_w s available dest max_bytes =
     (if available \<le> 0
      then (if state_w s = STREAM_STATE_EOF_w then - 1 else 0, dest, Some s)
      else
        let to_copy = (if max_bytes < nat available then max_bytes else nat available);
            buf = (if active_buffer_w s = 0 then buffer_a_w s else buffer_b_w s);
            consumed = (if active_buffer_w s = 0
                        then buffer_a_consumed_w s else buffer_b_consumed_w s);
            dest' = map_option (\<lambda>d. take to_copy (drop (nat consumed) buf) @ drop to_copy d) dest;
            s' = (if active_buffer_w s = 0
                  then s\<lparr>buffer_a_consumed_w := buffer_a_consumed_w s + int to_copy\<rparr>
                  else s\<lparr>buffer_b_consumed_w := buffer_b_consumed_w s + int to_copy\<rparr>)
        in (int to_copy, dest', Some s'))"

text \<open>
  \<^verbatim>\<open>sd_async_stream_read\<close> of the worker variant. Its first line returns 0 for a \<^verbatim>\<open>NULL\<close>
  stream, a \<^verbatim>\<open>NULL\<close> destination or a request for zero bytes, before any state is read.
\<close>

definition sd_async_stream_read_w ::
  "sd_async_stream_w option \<Rightarrow> uint8_t list option \<Rightarrow> nat
     \<Rightarrow> int \<times> uint8_t list option \<times> sd_async_stream_w option" where
  "sd_async_stream_read_w stream dest max_bytes =
     (case stream of
        None \<Rightarrow> (0, dest, None)
      | Some s \<Rightarrow>
          if dest = None \<or> max_bytes = 0 then (0, dest, Some s)
          else if state_w s = STREAM_STATE_ERROR_w then (- 1, dest, Some s)
          else
            let available = (if active_buffer_w s = 0
                             then buffer_a_valid_w s - buffer_a_consumed_w s
                             else buffer_b_valid_w s - buffer_b_consumed_w s)
            in if available \<le> 0
               then
                 let other = 1 - active_buffer_w s;
                     other_valid = (if other = 0 then buffer_a_valid_w s else buffer_b_valid_w s)
                 in if other_valid > 0
                    then
                      let s1 = (if active_buffer_w s = 0
                                then s\<lparr>buffer_a_valid_w := 0, buffer_a_consumed_w := 0\<rparr>
                                else s\<lparr>buffer_b_valid_w := 0, buffer_b_consumed_w := 0\<rparr>);
                          s2 = s1\<lparr>active_buffer_w := other\<rparr>;
                          available' = (if other = 0
                                        then buffer_a_valid_w s2 - buffer_a_consumed_w s2
                                        else buffer_b_valid_w s2 - buffer_b_consumed_w s2)
                      in stream_read_copy_w s2 available' dest max_bytes
                    else if state_w s = STREAM_STATE_EOF_w then (- 1, dest, Some s)
                    else (0, dest, Some s)
               else stream_read_copy_w s available dest max_bytes)"

definition sd_async_stream_available_w :: "sd_async_stream_w option \<Rightarrow> int" where
  "sd_async_stream_available_w stream =
     (case stream of
        None \<Rightarrow> 0
      | Some s \<Rightarrow>
          if active_buffer_w s = 0 then buffer_a_valid_w s - buffer_a_consumed_w s
          else buffer_b_valid_w s - buffer_b_consumed_w s)"

text \<open>
  \<^verbatim>\<open>sd_async_stream_seek\<close> of the worker variant posts the target, sets the state to
  \<^verbatim>\<open>SEEKING\<close> and spins until the worker on the other core has moved the state on. The
  worker's answer is the argument \<open>core1\<close>: the stream as the worker leaves it. If that
  is still \<^verbatim>\<open>SEEKING\<close> the loop does not end, and the result is \<open>None\<close>.
\<close>

definition sd_async_stream_seek_w ::
  "(sd_async_stream_w \<Rightarrow> sd_async_stream_w) \<Rightarrow> sd_async_stream_w option \<Rightarrow> nat
     \<Rightarrow> (int \<times> sd_async_stream_w option) option" where
  "sd_async_stream_seek_w core1 stream position =
     (case stream of
        None \<Rightarrow> Some (- 1, None)
      | Some s \<Rightarrow>
          if state_w s = STREAM_STATE_ERROR_w then Some (- 1, Some s)
          else
            let s1 = core1 (s\<lparr>seek_target_w := position, state_w := STREAM_STATE_SEEKING_w\<rparr>)
            in if state_w s1 = STREAM_STATE_SEEKING_w then None
               else Some (if state_w s1 = STREAM_STATE_ERROR_w then - 1 else 0, Some s1))"

definition unread_a_w :: "sd_async_stream_w \<Rightarrow> int" where
  "unread_a_w s = buffer_a_valid_w s - buffer_a_consumed_w s"

definition unread_b_w :: "sd_async_stream_w \<Rightarrow> int" where
  "unread_b_w s = buffer_b_valid_w s - buffer_b_consumed_w s"

definition unread_other_w :: "sd_async_stream_w \<Rightarrow> int" where
  "unread_other_w s = (if 1 - active_buffer_w s = 0 then unread_a_w s else unread_b_w s)"

subsection \<open>One-shot requests\<close>

text \<open>
  The request table and the counters of the worker variant. A request keeps the caller's
  destination pointer; the model keeps the bytes behind it (\<open>None\<close> is \<^verbatim>\<open>NULL\<close>). The
  fields \<^verbatim>\<open>state\<close>, \<^verbatim>\<open>path\<close>, \<^verbatim>\<open>dest\<close>, \<^verbatim>\<open>max_bytes\<close>, \<^verbatim>\<open>result\<close> and \<^verbatim>\<open>id\<close> carry the
  suffix \<open>_r\<close>.
\<close>

datatype req_state_t =
    REQ_STATE_FREE
  | REQ_STATE_PENDING
  | REQ_STATE_IN_PROGRESS
  | REQ_STATE_COMPLETE
  | REQ_STATE_ERROR

type_synonym sd_async_req_id = uint32_t

record oneshot_request_t =
  state_r :: req_state_t
  path_r :: string
  dest_r :: "uint8_t list option"
  max_bytes_r :: nat
  result_r :: int
  id_r :: sd_async_req_id

abbreviation (input) SD_ASYNC_MAX_REQUESTS :: nat where
  "SD_ASYNC_MAX_REQUESTS \<equiv> 8"

abbreviation (input) SD_ASYNC_MAX_PATH :: nat where
  "SD_ASYNC_MAX_PATH \<equiv> 256"

abbreviation (input) SD_ASYNC_INVALID_REQ :: sd_async_req_id where
  "SD_ASYNC_INVALID_REQ \<equiv> 0"

record sd_async_globals =
  requests :: "oneshot_request_t list"
  g_initialized :: bool
  g_next_req_id :: sd_async_req_id

text \<open>
  The card and the FAT volume on it are outside the program. Whether
  \<^verbatim>\<open>pop_fs_open(path, "r")\<close> returns a file or \<^verbatim>\<open>NULL\<close> (the volume does not mount,
  \<^verbatim>\<open>calloc\<close> or \<^verbatim>\<open>f_open\<close> fails), the size \<^verbatim>\<open>f_size\<close> reports and what \<^verbatim>\<open>f_read\<close> delivers
  (its result code and the bytes read, \<^verbatim>\<open>br\<close> being their number) are given by a record
  of functions.
\<close>

record sd_card =
  pop_fs_open :: "string \<Rightarrow> FIL option"
  f_size :: "FIL \<Rightarrow> nat"
  f_read :: "FIL \<Rightarrow> nat \<Rightarrow> FRESULT \<times> uint8_t list"

text \<open>\<^verbatim>\<open>process_oneshot_work\<close>, run by the worker on a request it has taken.\<close>

definition process_oneshot_work :: "sd_card \<Rightarrow> oneshot_request_t \<Rightarrow> oneshot_request_t" where
  "process_oneshot_work sd r =
     (case pop_fs_open sd (path_r r) of
        None \<Rightarrow> r\<lparr>result_r := - 1, state_r := REQ_STATE_ERROR\<rparr>
      | Some f \<Rightarrow>
          let file_size = f_size sd f;
              to_read = (if max_bytes_r r < file_size then max_bytes_r r else file_size);
              fr = fst (f_read sd f to_read);
              data = snd (f_read sd f to_read);
              br = length data;
              r1 = r\<lparr>dest_r := map_option (\<lambda>d. data @ drop br d) (dest_r r)\<rparr>
          in if fr \<noteq> FR_OK then r1\<lparr>result_r := - 1, state_r := REQ_STATE_ERROR\<rparr>
             else r1\<lparr>result_r := int br, state_r := REQ_STATE_COMPLETE\<rparr>)"

text \<open>
  The request loop of \<^verbatim>\<open>core1_worker\<close>: one pass over the table; \<open>core1_request_step\<close>
  is its body for slot \<open>i\<close>.
\<close>

definition core1_request_step :: "sd_card \<Rightarrow> sd_async_globals \<Rightarrow> nat \<Rightarrow> sd_async_globals" where
  "core1_request_step sd g i =
     (let r = requests g ! i
      in if state_r r = REQ_STATE_PENDING
         then g\<lparr>requests :=
                  (requests g)[i := process_oneshot_work sd (r\<lparr>state_r := REQ_STATE_IN_PROGRESS\<rparr>)]\<rparr>
         else g)"

definition core1_process_requests :: "sd_card \<Rightarrow> sd_async_globals \<Rightarrow> sd_async_globals" where
  "core1_process_requests sd g = foldl (core1_request_step sd) g [0 ..< SD_ASYNC_MAX_REQUESTS]"

text \<open>
  \<^verbatim>\<open>sd_async_read_file\<close>. The slot search stops at the first slot that is free, complete
  or failed. \<^verbatim>\<open>strncpy\<close> and the terminating zero keep the first 255 characters of the
  path. The id counter is a \<^verbatim>\<open>uint32_t\<close>: it wraps, and skips the invalid id 0.
\<close>

definition slot_is_reusable :: "oneshot_request_t \<Rightarrow> bool" where
  "slot_is_reusable r \<longleftrightarrow>
     state_r r = REQ_STATE_FREE \<or> state_r r = REQ_STATE_COMPLETE \<or> state_r r = REQ_STATE_ERROR"

definition sd_async_read_file ::
  "sd_async_globals \<Rightarrow> string option \<Rightarrow> uint8_t list option \<Rightarrow> nat
     \<Rightarrow> sd_async_req_id \<times> sd_async_globals" where
  "sd_async_read_file g path dest max_bytes =
     (if \<not> g_initialized g \<or> path = None \<or> dest = None then (SD_ASYNC_INVALID_REQ, g)
      else
        case find (\<lambda>i. slot_is_reusable (requests g ! i)) [0 ..< SD_ASYNC_MAX_REQUESTS] of
          None \<Rightarrow> (SD_ASYNC_INVALID_REQ, g)
        | Some i \<Rightarrow>
            let r = (requests g ! i)
                      \<lparr>path_r := take (SD_ASYNC_MAX_PATH - 1) (the path),
                       dest_r := dest,
                       max_bytes_r := max_bytes,
                       result_r := 0,
                       id_r := g_next_req_id g\<rparr>;
                next1 = g_next_req_id g + 1;
                next2 = (if next1 = SD_ASYNC_INVALID_REQ then 1 else next1);
                r' = r\<lparr>state_r := REQ_STATE_PENDING\<rparr>
            in (id_r r', g\<lparr>requests := (requests g)[i := r'], g_next_req_id := next2\<rparr>))"


definition sd_async_get_result :: "sd_async_globals \<Rightarrow> sd_async_req_id \<Rightarrow> int" where
  "sd_async_get_result g req =
     (if req = SD_ASYNC_INVALID_REQ then - 1
      else
        case find (\<lambda>i. id_r (requests g ! i) = req) [0 ..< SD_ASYNC_MAX_REQUESTS] of
          Some i \<Rightarrow> result_r (requests g ! i)
        | None \<Rightarrow> - 1)"

definition sd_async_cancel :: "sd_async_globals \<Rightarrow> sd_async_req_id \<Rightarrow> sd_async_globals" where
  "sd_async_cancel g req =
     (if req = SD_ASYNC_INVALID_REQ then g
      else
        case find (\<lambda>i. id_r (requests g ! i) = req \<and> state_r (requests g ! i) = REQ_STATE_PENDING)
               [0 ..< SD_ASYNC_MAX_REQUESTS] of
          Some i \<Rightarrow> g\<lparr>requests := (requests g)[i := (requests g ! i)\<lparr>state_r := REQ_STATE_FREE\<rparr>]\<rparr>
        | None \<Rightarrow> g)"

text \<open>
  Further submissions, in program order, each one a path, a destination and a byte
  count; the ids they return are dropped.
\<close>

definition submit_all ::
  "sd_async_globals \<Rightarrow> (string option \<times> uint8_t list option \<times> nat) list \<Rightarrow> sd_async_globals" where
  "submit_all g reqs =
     foldl (\<lambda>h q. snd (sd_async_read_file h (fst q) (fst (snd q)) (snd (snd q)))) g reqs"






text \<open>
  The globals once \<^verbatim>\<open>sd_async_init\<close> has run: \<^verbatim>\<open>memset\<close> has zeroed the table, the id
  counter holds its initial value 1.
\<close>

definition zeroed_request :: oneshot_request_t where
  "zeroed_request =
     \<lparr>state_r = REQ_STATE_FREE, path_r = [], dest_r = None, max_bytes_r = 0, result_r = 0,
      id_r = 0\<rparr>"

definition sd_async_initial :: sd_async_globals where
  "sd_async_initial =
     \<lparr>requests = replicate SD_ASYNC_MAX_REQUESTS zeroed_request, g_initialized = True,
      g_next_req_id = 1\<rparr>"

text \<open>A card on which no path can be opened.\<close>

definition empty_card :: sd_card where
  "empty_card = \<lparr>pop_fs_open = (\<lambda>_. None), f_size = (\<lambda>_. 0), f_read = (\<lambda>_ _. (FR_ERR 1, []))\<rparr>"

subsection \<open>Example streams\<close>

text \<open>
  A stream over a file of 20000 bytes after both buffers were filled and the reader
  consumed all 8192 bytes of buffer A: the active buffer is exhausted, buffer B is full.
\<close>

definition stream_a_drained :: sd_async_stream where
  "stream_a_drained =
     \<lparr>state = STREAM_STATE_READY, file_p = Some 1, file_size = 20000, file_pos = 16384,
      buffer_a = replicate 8192 0, buffer_b = replicate 8192 1,
      buffer_a_valid = 8192, buffer_b_valid = 8192,
      buffer_a_consumed = 8192, buffer_b_consumed = 0,
      active_buffer = 0, fill_offset = 0, slot = 0\<rparr>"

definition stream_a_drained_w :: sd_async_stream_w where
  "stream_a_drained_w =
     \<lparr>state_w = STREAM_STATE_READY_w, file_w = Some 1, file_size_w = 20000, file_pos_w = 16384,
      buffer_a_w = replicate 8192 0, buffer_b_w = replicate 8192 1,
      buffer_a_valid_w = 8192, buffer_b_valid_w = 8192,
      buffer_a_consumed_w = 8192, buffer_b_consumed_w = 0,
      active_buffer_w = 0, path_w = ''music.raw'', seek_target_w = 0, slot_w = 0\<rparr>"

text \<open>A stream with unread bytes in its active buffer.\<close>

definition stream_a_fresh :: sd_async_stream where
  "stream_a_fresh = stream_a_drained\<lparr>buffer_a_consumed := 100\<rparr>"

definition stream_a_fresh_w :: sd_async_stream_w where
  "stream_a_fresh_w = stream_a_drained_w\<lparr>buffer_a_consumed_w := 100\<rparr>"

text \<open>A stream at the end of a 5000 byte file, everything consumed.\<close>

definition stream_at_eof :: sd_async_stream where
  "stream_at_eof =
     \<lparr>state = STREAM_STATE_EOF, file_p = Some 1, file_size = 5000, file_pos = 5000,
      buffer_a = replicate 8192 0, buffer_b = replicate 8192 0,
      buffer_a_valid = 5000, buffer_b_valid = 0,
      buffer_a_consumed = 5000, buffer_b_consumed = 0,
      active_buffer = 0, fill_offset = 0, slot = 0\<rparr>"

definition stream_at_eof_w :: sd_async_stream_w where
  "stream_at_eof_w =
     \<lparr>state_w = STREAM_STATE_EOF_w, file_w = Some 1, file_size_w = 5000, file_pos_w = 5000,
      buffer_a_w = replicate 8192 0, buffer_b_w = replicate 8192 0,
      buffer_a_valid_w = 5000, buffer_b_valid_w = 0,
      buffer_a_consumed_w = 5000, buffer_b_consumed_w = 0,
      active_buffer_w = 0, path_w = ''music.raw'', seek_target_w = 0, slot_w = 0\<rparr>"

text \<open>A stream that a failed read has put into the error state; its file is still open.\<close>

definition stream_in_error :: sd_async_stream where
  "stream_in_error = stream_a_fresh\<lparr>state := STREAM_STATE_ERROR\<rparr>"


section \<open>Remap guard of the scanline builder\<close>




lemma active_pixels_length: "length (active_pixels fs line) = SCREEN_WIDTH"
  by (auto simp: active_pixels_def Let_def split: option.splits graphics_mode_t.splits)




section \<open>Palette writes and the vblank publish\<close>

lemma set_palette_front [simp]:
  "conv_color_front (graphics_set_palette_hdmi cfg i c s) = conv_color_front s"
  by (simp add: graphics_set_palette_hdmi_def Let_def)

lemma set_palette_ok:
  "hdmi_state_ok s \<Longrightarrow> hdmi_state_ok (graphics_set_palette_hdmi cfg i c s)"
  by (simp add: graphics_set_palette_hdmi_def hdmi_state_ok_def Let_def)

lemma set_palette_ctrl:
  "is_hdmi_ctrl_inx (unat i) \<Longrightarrow>
     conv_color_back (graphics_set_palette_hdmi cfg i c s) = conv_color_back s \<and>
     conv_color_dirty (graphics_set_palette_hdmi cfg i c s) = conv_color_dirty s"
  by (simp add: graphics_set_palette_hdmi_def Let_def)

lemma unat8_bound: "unat (i :: uint8_t) < 256"
  using unsigned_less [of i, where ?'a = nat] by simp

lemma set_palette_palette_nth:
  "hdmi_state_ok s \<Longrightarrow>
   palette (graphics_set_palette_hdmi cfg i c s) ! k =
     (if k = unat i then palette (graphics_set_palette_hdmi cfg i c s) ! unat i else palette s ! k)"
  by (simp add: graphics_set_palette_hdmi_def Let_def)

lemma set_palette_back:
  "hdmi_state_ok s \<Longrightarrow> \<not> is_hdmi_ctrl_inx (unat i) \<Longrightarrow>
     conv_color_back (graphics_set_palette_hdmi cfg i c s) =
       (conv_color_back s)
         [unat i * 2 := encode_color cfg (palette (graphics_set_palette_hdmi cfg i c s) ! unat i),
          unat i * 2 + 1 := encode_color cfg (palette (graphics_set_palette_hdmi cfg i c s) ! unat i)
                              XOR 0x0003ffffffffffff] \<and>
     conv_color_dirty (graphics_set_palette_hdmi cfg i c s)"
  using unat8_bound [of i]
  by (simp add: graphics_set_palette_hdmi_def Let_def hdmi_state_ok_def)

lemma palette_writes_snoc:
  "palette_writes cfg (ws @ [w]) s = graphics_set_palette_hdmi cfg (fst w) (snd w) (palette_writes cfg ws s)"
  by (simp add: palette_writes_def)

lemma palette_writes_front: "conv_color_front (palette_writes cfg ws s) = conv_color_front s"
  by (induction ws rule: rev_induct) (simp_all add: palette_writes_snoc, simp add: palette_writes_def)

lemma palette_writes_ok: "hdmi_state_ok s \<Longrightarrow> hdmi_state_ok (palette_writes cfg ws s)"
  by (induction ws rule: rev_induct) (simp_all add: palette_writes_snoc set_palette_ok, simp add: palette_writes_def)

lemma vsync_dirty:
  "hdmi_state_ok t \<Longrightarrow> conv_color_dirty t \<Longrightarrow>
     take 512 (conv_color_front (vsync_swap_buffers t)) = take 512 (conv_color_back t) \<and>
     drop 512 (conv_color_front (vsync_swap_buffers t)) = drop 512 (conv_color_front t) \<and>
     conv_color_back (vsync_swap_buffers t) = conv_color_back t \<and>
     \<not> conv_color_dirty (vsync_swap_buffers t)"
  by (simp add: vsync_swap_buffers_def hdmi_state_ok_def)


lemma set_palette_back_nth:
  "hdmi_state_ok s \<Longrightarrow>
   conv_color_back (graphics_set_palette_hdmi cfg j c s) ! k =
     (if \<not> is_hdmi_ctrl_inx (unat j) \<and> k = unat j * 2
        then encode_color cfg (palette (graphics_set_palette_hdmi cfg j c s) ! unat j)
      else if \<not> is_hdmi_ctrl_inx (unat j) \<and> k = unat j * 2 + 1
        then encode_color cfg (palette (graphics_set_palette_hdmi cfg j c s) ! unat j)
               XOR 0x0003ffffffffffff
      else conv_color_back s ! k)"
  using unat8_bound [of j]
  by (cases "is_hdmi_ctrl_inx (unat j)")
     (simp_all add: set_palette_ctrl set_palette_back hdmi_state_ok_def)

lemma palette_writes_back:
  assumes ok: "hdmi_state_ok s"
  shows "(i \<in> fst ` set ws \<and> \<not> is_hdmi_ctrl_inx (unat i) \<longrightarrow>
            conv_color_back (palette_writes cfg ws s) ! (unat i * 2) =
              encode_color cfg (palette (palette_writes cfg ws s) ! unat i) \<and>
            conv_color_back (palette_writes cfg ws s) ! (unat i * 2 + 1) =
              encode_color cfg (palette (palette_writes cfg ws s) ! unat i) XOR 0x0003ffffffffffff)"
proof (induction ws rule: rev_induct)
  case Nil
  show ?case by simp
next
  case (snoc w ws)
  let ?t = "palette_writes cfg ws s"
  have okt: "hdmi_state_ok ?t" using ok by (rule palette_writes_ok)
  show ?case
  proof (cases "fst w = i")
    case True
    then show ?thesis
      by (simp add: palette_writes_snoc set_palette_back_nth [OF okt])
  next
    case False
    then have ne: "unat (fst w) \<noteq> unat i" by (simp add: word_unat_eq_iff)
    have pal: "palette (graphics_set_palette_hdmi cfg (fst w) (snd w) ?t) ! unat i = palette ?t ! unat i"
      using set_palette_palette_nth [OF okt, of cfg "fst w" "snd w" "unat i"] ne by simp
    have k1: "unat i * 2 \<noteq> unat (fst w) * 2" "unat i * 2 \<noteq> unat (fst w) * 2 + 1"
      "unat i * 2 + 1 \<noteq> unat (fst w) * 2" "unat i * 2 + 1 \<noteq> unat (fst w) * 2 + 1"
      using ne by presburger+
    from snoc False ne show ?thesis
      by (auto simp: palette_writes_snoc set_palette_back_nth [OF okt] pal k1)
  qed
qed

lemma palette_writes_back_frame:
  assumes ok: "hdmi_state_ok s"
  shows "(\<forall>i \<in> fst ` set ws. is_hdmi_ctrl_inx (unat i) \<or> (k \<noteq> unat i * 2 \<and> k \<noteq> unat i * 2 + 1)) \<Longrightarrow>
            conv_color_back (palette_writes cfg ws s) ! k = conv_color_back s ! k"
proof (induction ws rule: rev_induct)
  case Nil
  show ?case by (simp add: palette_writes_def)
next
  case (snoc w ws)
  have okt: "hdmi_state_ok (palette_writes cfg ws s)" using ok by (rule palette_writes_ok)
  from snoc show ?case
    by (auto simp: palette_writes_snoc set_palette_back_nth [OF okt])
qed

lemma palette_writes_dirty:
  "i \<in> fst ` set ws \<Longrightarrow> \<not> is_hdmi_ctrl_inx (unat i) \<Longrightarrow> conv_color_dirty (palette_writes cfg ws s)"
proof (induction ws rule: rev_induct)
  case Nil
  then show ?case by simp
next
  case (snoc w ws)
  then show ?case
    by (cases "is_hdmi_ctrl_inx (unat (fst w))")
       (auto simp: palette_writes_snoc graphics_set_palette_hdmi_def Let_def)
qed

lemma set_palette_stores_faded_color:
  "hdmi_state_ok s \<Longrightarrow>
   palette (graphics_set_palette_hdmi cfg i c s) ! unat i = faded_color s i c"
  using unat8_bound [of i]
  by (simp add: graphics_set_palette_hdmi_def faded_color_def Let_def hdmi_state_ok_def)

lemma set_palette_fade_globals:
  "g_hdmi_fade_level (graphics_set_palette_hdmi cfg i c s) = g_hdmi_fade_level s \<and>
   g_hdmi_fade_rows (graphics_set_palette_hdmi cfg i c s) = g_hdmi_fade_rows s"
  by (simp add: graphics_set_palette_hdmi_def Let_def)

lemma palette_writes_fade_globals:
  "g_hdmi_fade_level (palette_writes cfg ws s) = g_hdmi_fade_level s \<and>
   g_hdmi_fade_rows (palette_writes cfg ws s) = g_hdmi_fade_rows s"
  by (induction ws rule: rev_induct)
     (simp add: palette_writes_def, simp add: palette_writes_snoc set_palette_fade_globals)

lemma faded_color_cong:
  "g_hdmi_fade_level t = g_hdmi_fade_level s \<Longrightarrow> g_hdmi_fade_rows t = g_hdmi_fade_rows s \<Longrightarrow>
   faded_color t i c = faded_color s i c"
  by (simp add: faded_color_def)

lemma palette_writes_palette_other:
  assumes ok: "hdmi_state_ok s"
  shows "i \<notin> fst ` set ws \<Longrightarrow> palette (palette_writes cfg ws s) ! unat i = palette s ! unat i"
proof (induction ws rule: rev_induct)
  case Nil
  show ?case by (simp add: palette_writes_def)
next
  case (snoc w ws)
  have okt: "hdmi_state_ok (palette_writes cfg ws s)" using ok by (rule palette_writes_ok)
  from snoc.prems have ne: "unat i \<noteq> unat (fst w)" by (auto simp: word_unat_eq_iff)
  from snoc.prems have "i \<notin> fst ` set ws" by simp
  then have ih: "palette (palette_writes cfg ws s) ! unat i = palette s ! unat i"
    by (rule snoc.IH)
  show ?case
    using set_palette_palette_nth [OF okt, of cfg "fst w" "snd w" "unat i"] ne ih
    by (simp add: palette_writes_snoc)
qed

lemma palette_writes_last_color:
  assumes ok: "hdmi_state_ok s" and last: "i \<notin> fst ` set ws2"
  shows "palette (palette_writes cfg (ws1 @ (i, c) # ws2) s) ! unat i = faded_color s i c"
proof -
  let ?t = "palette_writes cfg ws1 s"
  let ?u = "graphics_set_palette_hdmi cfg i c ?t"
  have okt: "hdmi_state_ok ?t" using ok by (rule palette_writes_ok)
  have oku: "hdmi_state_ok ?u" using okt by (rule set_palette_ok)
  have split: "palette_writes cfg (ws1 @ (i, c) # ws2) s = palette_writes cfg ws2 ?u"
    by (simp add: palette_writes_def)
  have "palette (palette_writes cfg ws2 ?u) ! unat i = palette ?u ! unat i"
    using oku last by (rule palette_writes_palette_other)
  also have "\<dots> = faded_color ?t i c"
    using okt by (rule set_palette_stores_faded_color)
  also have "\<dots> = faded_color s i c"
    by (rule faded_color_cong) (simp_all add: palette_writes_fade_globals)
  finally show ?thesis unfolding split .
qed

lemma vsync_clean:
  "\<not> conv_color_dirty t \<Longrightarrow> vsync_swap_buffers t = t"
  by (simp add: vsync_swap_buffers_def)

text \<open>
  C7. A palette write to a reserved index (240 to 243) leaves the encoded back buffer,
  the front buffer and the dirty flag as they were. A write to any other index stores
  the encoding of the (faded) colour in the two words of that index, leaves every other
  word of the back buffer and the whole front buffer unchanged, and sets the dirty flag.
\<close>

theorem set_palette_reserved_is_noop_on_clut:
  assumes "hdmi_state_ok s"
  shows "(is_hdmi_ctrl_inx (unat i) \<longrightarrow>
            conv_color_back (graphics_set_palette cfg i c s) = conv_color_back s \<and>
            conv_color_front (graphics_set_palette cfg i c s) = conv_color_front s \<and>
            conv_color_dirty (graphics_set_palette cfg i c s) = conv_color_dirty s) \<and>
         (\<not> is_hdmi_ctrl_inx (unat i) \<longrightarrow>
            conv_color_back (graphics_set_palette cfg i c s) ! (unat i * 2) =
              encode_color cfg (palette (graphics_set_palette cfg i c s) ! unat i) \<and>
            conv_color_back (graphics_set_palette cfg i c s) ! (unat i * 2 + 1) =
              encode_color cfg (palette (graphics_set_palette cfg i c s) ! unat i)
                XOR 0x0003ffffffffffff \<and>
            (\<forall>k. k \<noteq> unat i * 2 \<and> k \<noteq> unat i * 2 + 1 \<longrightarrow>
                 conv_color_back (graphics_set_palette cfg i c s) ! k = conv_color_back s ! k) \<and>
            length (conv_color_back (graphics_set_palette cfg i c s)) = length (conv_color_back s) \<and>
            conv_color_front (graphics_set_palette cfg i c s) = conv_color_front s \<and>
            conv_color_dirty (graphics_set_palette cfg i c s))"
proof (cases "is_hdmi_ctrl_inx (unat i)")
  case True
  then show ?thesis
    by (simp add: graphics_set_palette_def set_palette_ctrl)
next
  case False
  have len: "length (conv_color_back (graphics_set_palette_hdmi cfg i c s)) = length (conv_color_back s)"
    using set_palette_ok [OF assms, of cfg i c] assms by (simp add: hdmi_state_ok_def)
  have d: "conv_color_dirty (graphics_set_palette_hdmi cfg i c s)"
    using set_palette_back [OF assms False, of cfg c] by simp
  from False d show ?thesis
    by (simp add: graphics_set_palette_def set_palette_back_nth [OF assms] len)
qed

theorem set_palette_reserved_is_noop_on_clut_witness:
  "hdmi_state_ok hdmi_init_state \<and>
   \<not> is_hdmi_ctrl_inx (unat (5 :: uint8_t)) \<and>
   conv_color_dirty (graphics_set_palette board0 5 0xFF0000 hdmi_init_state) \<and>
   \<not> conv_color_dirty hdmi_init_state \<and>
   is_hdmi_ctrl_inx (unat (241 :: uint8_t)) \<and>
   conv_color_back (graphics_set_palette board0 241 0x00FF00
                      (graphics_set_palette board0 5 0xFF0000 hdmi_init_state)) =
     conv_color_back (graphics_set_palette board0 5 0xFF0000 hdmi_init_state)"
proof -
  have ok0: "hdmi_state_ok hdmi_init_state"
    by (simp add: hdmi_state_ok_def hdmi_init_state_def)
  have ok1: "hdmi_state_ok (graphics_set_palette board0 5 0xFF0000 hdmi_init_state)"
    unfolding graphics_set_palette_def by (rule set_palette_ok [OF ok0])
  show ?thesis
    using set_palette_reserved_is_noop_on_clut [OF ok0, of 5 board0 "0xFF0000"]
      set_palette_reserved_is_noop_on_clut [OF ok1, of 241 board0 "0x00FF00"] ok0
    by (simp add: is_hdmi_ctrl_inx_def hdmi_init_state_def)
qed

text \<open>
  C1. For every finite run of palette writes the front buffer is what it was before the
  run. A publish that finds the dirty flag clear changes nothing: the whole driver state,
  and so every word of the front buffer, is as before. A publish that finds the flag set
  copies the lookup-table region (words 0 to 511) of the back buffer over that of the
  front buffer, leaves the line buffers of the front buffer and the whole back buffer
  alone, and clears the flag. The published table reflects exactly the accumulated
  writes: every non-reserved index the run wrote set the flag, and its two words in the
  front buffer are then the encoding of the colour the palette holds for it, which is the
  colour of the last write to that index in the run (masked to 24 bits and faded under
  the fade setting in force); words of indices the run did not write are those the back
  buffer held before the run.
\<close>

theorem front_unchanged_until_publish:
  assumes "hdmi_state_ok s"
  shows "conv_color_front (palette_writes cfg ws s) = conv_color_front s \<and>
         (\<not> conv_color_dirty (palette_writes cfg ws s) \<longrightarrow>
            vsync_swap_buffers (palette_writes cfg ws s) = palette_writes cfg ws s \<and>
            conv_color_front (vsync_swap_buffers (palette_writes cfg ws s)) = conv_color_front s) \<and>
         (conv_color_dirty (palette_writes cfg ws s) \<longrightarrow>
            take 512 (conv_color_front (vsync_swap_buffers (palette_writes cfg ws s))) =
              take 512 (conv_color_back (palette_writes cfg ws s)) \<and>
            drop 512 (conv_color_front (vsync_swap_buffers (palette_writes cfg ws s))) =
              drop 512 (conv_color_front s) \<and>
            conv_color_back (vsync_swap_buffers (palette_writes cfg ws s)) =
              conv_color_back (palette_writes cfg ws s) \<and>
            \<not> conv_color_dirty (vsync_swap_buffers (palette_writes cfg ws s))) \<and>
         (\<forall>i \<in> fst ` set ws. \<not> is_hdmi_ctrl_inx (unat i) \<longrightarrow>
            conv_color_dirty (palette_writes cfg ws s) \<and>
            conv_color_front (vsync_swap_buffers (palette_writes cfg ws s)) ! (unat i * 2) =
              encode_color cfg (palette (palette_writes cfg ws s) ! unat i) \<and>
            conv_color_front (vsync_swap_buffers (palette_writes cfg ws s)) ! (unat i * 2 + 1) =
              encode_color cfg (palette (palette_writes cfg ws s) ! unat i)
                XOR 0x0003ffffffffffff) \<and>
         (\<forall>ws1 i c ws2. ws = ws1 @ (i, c) # ws2 \<and> i \<notin> fst ` set ws2 \<and>
              \<not> is_hdmi_ctrl_inx (unat i) \<longrightarrow>
            palette (palette_writes cfg ws s) ! unat i = faded_color s i c \<and>
            conv_color_front (vsync_swap_buffers (palette_writes cfg ws s)) ! (unat i * 2) =
              encode_color cfg (faded_color s i c) \<and>
            conv_color_front (vsync_swap_buffers (palette_writes cfg ws s)) ! (unat i * 2 + 1) =
              encode_color cfg (faded_color s i c) XOR 0x0003ffffffffffff) \<and>
         (\<forall>k < 512. conv_color_dirty (palette_writes cfg ws s) \<and>
            (\<forall>i \<in> fst ` set ws. is_hdmi_ctrl_inx (unat i) \<or> (k \<noteq> unat i * 2 \<and> k \<noteq> unat i * 2 + 1)) \<longrightarrow>
            conv_color_front (vsync_swap_buffers (palette_writes cfg ws s)) ! k =
              conv_color_back s ! k)"
proof -
  let ?t = "palette_writes cfg ws s"
  have okt: "hdmi_state_ok ?t" using assms by (rule palette_writes_ok)
  have pub: "conv_color_dirty ?t \<Longrightarrow> k < 512 \<Longrightarrow>
      conv_color_front (vsync_swap_buffers ?t) ! k = conv_color_back ?t ! k" for k
    using okt by (simp add: vsync_swap_buffers_def hdmi_state_ok_def nth_append)
  have p1: "conv_color_front ?t = conv_color_front s"
    by (rule palette_writes_front)
  have p0: "\<not> conv_color_dirty ?t \<longrightarrow>
            vsync_swap_buffers ?t = ?t \<and>
            conv_color_front (vsync_swap_buffers ?t) = conv_color_front s"
    using p1 by (simp add: vsync_clean)
  have p2: "conv_color_dirty ?t \<longrightarrow>
            take 512 (conv_color_front (vsync_swap_buffers ?t)) = take 512 (conv_color_back ?t) \<and>
            drop 512 (conv_color_front (vsync_swap_buffers ?t)) = drop 512 (conv_color_front s) \<and>
            conv_color_back (vsync_swap_buffers ?t) = conv_color_back ?t \<and>
            \<not> conv_color_dirty (vsync_swap_buffers ?t)"
    using vsync_dirty [OF okt] p1 by simp
  have p3: "\<forall>i \<in> fst ` set ws. \<not> is_hdmi_ctrl_inx (unat i) \<longrightarrow>
            conv_color_dirty ?t \<and>
            conv_color_front (vsync_swap_buffers ?t) ! (unat i * 2) =
              encode_color cfg (palette ?t ! unat i) \<and>
            conv_color_front (vsync_swap_buffers ?t) ! (unat i * 2 + 1) =
              encode_color cfg (palette ?t ! unat i) XOR 0x0003ffffffffffff"
  proof (intro ballI impI)
    fix i assume i: "i \<in> fst ` set ws" "\<not> is_hdmi_ctrl_inx (unat i)"
    have d: "conv_color_dirty ?t" using i by (rule palette_writes_dirty)
    have b: "unat i * 2 < 512" "unat i * 2 + 1 < 512" using unat8_bound [of i] by simp_all
    show "conv_color_dirty ?t \<and>
            conv_color_front (vsync_swap_buffers ?t) ! (unat i * 2) =
              encode_color cfg (palette ?t ! unat i) \<and>
            conv_color_front (vsync_swap_buffers ?t) ! (unat i * 2 + 1) =
              encode_color cfg (palette ?t ! unat i) XOR 0x0003ffffffffffff"
      using d pub [OF d b(1)] pub [OF d b(2)] palette_writes_back [OF assms, of i ws cfg] i
      by simp
  qed
  have p5: "\<forall>ws1 i c ws2. ws = ws1 @ (i, c) # ws2 \<and> i \<notin> fst ` set ws2 \<and>
              \<not> is_hdmi_ctrl_inx (unat i) \<longrightarrow>
            palette ?t ! unat i = faded_color s i c \<and>
            conv_color_front (vsync_swap_buffers ?t) ! (unat i * 2) =
              encode_color cfg (faded_color s i c) \<and>
            conv_color_front (vsync_swap_buffers ?t) ! (unat i * 2 + 1) =
              encode_color cfg (faded_color s i c) XOR 0x0003ffffffffffff"
  proof (intro allI impI)
    fix ws1 i c ws2
    assume h: "ws = ws1 @ (i, c) # ws2 \<and> i \<notin> fst ` set ws2 \<and> \<not> is_hdmi_ctrl_inx (unat i)"
    then have mem: "i \<in> fst ` set ws" by force
    have col: "palette ?t ! unat i = faded_color s i c"
      using palette_writes_last_color [OF assms, of i ws2 cfg ws1 c] h by simp
    from p3 mem h have
      "conv_color_front (vsync_swap_buffers ?t) ! (unat i * 2) =
         encode_color cfg (palette ?t ! unat i) \<and>
       conv_color_front (vsync_swap_buffers ?t) ! (unat i * 2 + 1) =
         encode_color cfg (palette ?t ! unat i) XOR 0x0003ffffffffffff"
      by blast
    then show "palette ?t ! unat i = faded_color s i c \<and>
            conv_color_front (vsync_swap_buffers ?t) ! (unat i * 2) =
              encode_color cfg (faded_color s i c) \<and>
            conv_color_front (vsync_swap_buffers ?t) ! (unat i * 2 + 1) =
              encode_color cfg (faded_color s i c) XOR 0x0003ffffffffffff"
      unfolding col by simp
  qed
  have p4: "\<forall>k < 512. conv_color_dirty ?t \<and>
            (\<forall>i \<in> fst ` set ws. is_hdmi_ctrl_inx (unat i) \<or> (k \<noteq> unat i * 2 \<and> k \<noteq> unat i * 2 + 1)) \<longrightarrow>
            conv_color_front (vsync_swap_buffers ?t) ! k = conv_color_back s ! k"
    using pub palette_writes_back_frame [OF assms, of ws _ cfg] by simp
  show ?thesis
    by (rule conjI [OF p1 conjI [OF p0 conjI [OF p2 conjI [OF p3 conjI [OF p5 p4]]]]])
qed

theorem front_unchanged_until_publish_witness:
  "hdmi_state_ok hdmi_init_state \<and>
   conv_color_front (palette_writes board0 [(5, 0xFF0000), (241, 0x00FF00)] hdmi_init_state) =
     conv_color_front hdmi_init_state \<and>
   5 \<in> fst ` set [(5 :: uint8_t, 0xFF0000 :: uint32_t), (241, 0x00FF00)] \<and>
   \<not> is_hdmi_ctrl_inx (unat (5 :: uint8_t)) \<and>
   conv_color_dirty (palette_writes board0 [(5, 0xFF0000), (241, 0x00FF00)] hdmi_init_state) \<and>
   take 512 (conv_color_front (vsync_swap_buffers
       (palette_writes board0 [(5, 0xFF0000), (241, 0x00FF00)] hdmi_init_state))) =
     take 512 (conv_color_back (palette_writes board0 [(5, 0xFF0000), (241, 0x00FF00)] hdmi_init_state)) \<and>
   \<not> conv_color_dirty (vsync_swap_buffers
       (palette_writes board0 [(5, 0xFF0000), (241, 0x00FF00)] hdmi_init_state)) \<and>
   palette (palette_writes board0 [(5, 0xFF0000), (241, 0x00FF00)] hdmi_init_state) ! 5 = 0xFF0000 \<and>
   conv_color_front (vsync_swap_buffers
       (palette_writes board0 [(5, 0xFF0000), (241, 0x00FF00)] hdmi_init_state)) ! 10 =
     encode_color board0 0xFF0000 \<and>
   \<not> conv_color_dirty (palette_writes board0 [(241, 0x00FF00)] hdmi_init_state) \<and>
   conv_color_front (vsync_swap_buffers (palette_writes board0 [(241, 0x00FF00)] hdmi_init_state)) =
     conv_color_front hdmi_init_state"
proof -
  have ok0: "hdmi_state_ok hdmi_init_state"
    by (simp add: hdmi_state_ok_def hdmi_init_state_def)
  have m: "5 \<in> fst ` set [(5 :: uint8_t, 0xFF0000 :: uint32_t), (241, 0x00FF00)]"
    by simp
  have n: "\<not> is_hdmi_ctrl_inx (unat (5 :: uint8_t))"
    by (simp add: is_hdmi_ctrl_inx_def)
  have fc: "faded_color hdmi_init_state 5 0xFF0000 = 0xFF0000"
    by (simp add: faded_color_def hdmi_init_state_def)
  have clean: "\<not> conv_color_dirty (palette_writes board0 [(241, 0x00FF00)] hdmi_init_state)"
    by (simp add: palette_writes_def set_palette_ctrl is_hdmi_ctrl_inx_def hdmi_init_state_def)
  note run = front_unchanged_until_publish [OF ok0, of board0 "[(5, 0xFF0000), (241, 0x00FF00)]"]
  note idle = front_unchanged_until_publish [OF ok0, of board0 "[(241, 0x00FF00)]"]
  have front: "conv_color_front (palette_writes board0 [(5, 0xFF0000), (241, 0x00FF00)] hdmi_init_state) =
      conv_color_front hdmi_init_state"
    by (rule run [THEN conjunct1])
  have dirty: "conv_color_dirty (palette_writes board0 [(5, 0xFF0000), (241, 0x00FF00)] hdmi_init_state)"
    using run [THEN conjunct2, THEN conjunct2, THEN conjunct2, THEN conjunct1, THEN bspec, OF m] n
    by simp
  have pub: "take 512 (conv_color_front (vsync_swap_buffers
         (palette_writes board0 [(5, 0xFF0000), (241, 0x00FF00)] hdmi_init_state))) =
       take 512 (conv_color_back (palette_writes board0 [(5, 0xFF0000), (241, 0x00FF00)] hdmi_init_state)) \<and>
     \<not> conv_color_dirty (vsync_swap_buffers
         (palette_writes board0 [(5, 0xFF0000), (241, 0x00FF00)] hdmi_init_state))"
    using run [THEN conjunct2, THEN conjunct2, THEN conjunct1] dirty by simp
  have col: "palette (palette_writes board0 [(5, 0xFF0000), (241, 0x00FF00)] hdmi_init_state) ! 5 = 0xFF0000 \<and>
     conv_color_front (vsync_swap_buffers
       (palette_writes board0 [(5, 0xFF0000), (241, 0x00FF00)] hdmi_init_state)) ! 10 =
     encode_color board0 0xFF0000"
    using run [THEN conjunct2, THEN conjunct2, THEN conjunct2, THEN conjunct2, THEN conjunct1,
               rule_format, of "[]" 5 "0xFF0000" "[(241, 0x00FF00)]"] fc
    by (simp add: is_hdmi_ctrl_inx_def)
  have still: "conv_color_front (vsync_swap_buffers (palette_writes board0 [(241, 0x00FF00)] hdmi_init_state)) =
     conv_color_front hdmi_init_state"
    by (rule idle [THEN conjunct2, THEN conjunct1, rule_format, OF clean, THEN conjunct2])
  from ok0 front m n dirty pub col clean still show ?thesis
    by (intro conjI) (rule ok0 front m n dirty clean still pub [THEN conjunct1] pub [THEN conjunct2]
                        col [THEN conjunct1] col [THEN conjunct2])+
qed


section \<open>Fade\<close>

lemma fade_entry_original [simp]:
  "palette_original (fade_entry cfg l m s i) = palette_original s"
  by (simp add: fade_entry_def Let_def)

lemma fade_entry_front [simp]:
  "conv_color_front (fade_entry cfg l m s i) = conv_color_front s"
  by (simp add: fade_entry_def Let_def)

lemma fade_entry_ok: "hdmi_state_ok s \<Longrightarrow> hdmi_state_ok (fade_entry cfg l m s i)"
  by (simp add: fade_entry_def Let_def hdmi_state_ok_def)

lemma fade_entry_flags [simp]:
  "g_hdmi_fade_level (fade_entry cfg l m s i) = g_hdmi_fade_level s"
  "g_hdmi_fade_rows (fade_entry cfg l m s i) = g_hdmi_fade_rows s"
  by (simp_all add: fade_entry_def Let_def)

lemma fade_loop_original [simp]:
  "palette_original (foldl (fade_entry cfg l m) s [0 ..< n]) = palette_original s"
  by (induction n) simp_all

lemma fade_loop_front [simp]:
  "conv_color_front (foldl (fade_entry cfg l m) s [0 ..< n]) = conv_color_front s"
  by (induction n) simp_all

lemma fade_loop_ok:
  "hdmi_state_ok s \<Longrightarrow> hdmi_state_ok (foldl (fade_entry cfg l m) s [0 ..< n])"
  by (induction n) (simp_all add: fade_entry_ok)

lemma restore_sync_fields [simp]:
  "palette (graphics_restore_sync_colors cfg s) = palette s"
  "palette_original (graphics_restore_sync_colors cfg s) = palette_original s"
  "g_hdmi_fade_level (graphics_restore_sync_colors cfg s) = g_hdmi_fade_level s"
  by (simp_all add: graphics_restore_sync_colors_def)

lemma write_sync_words_length [simp]: "length (write_sync_words cfg conv) = length conv"
  by (simp add: write_sync_words_def Let_def)

lemma write_sync_words_nth:
  "k < 480 \<or> 487 < k \<Longrightarrow> write_sync_words cfg conv ! k = conv ! k"
  by (auto simp: write_sync_words_def Let_def)

lemma restore_sync_ok:
  "hdmi_state_ok s \<Longrightarrow> hdmi_state_ok (graphics_restore_sync_colors cfg s)"
  by (simp add: graphics_restore_sync_colors_def hdmi_state_ok_def)

lemma set_fade_level_original [simp]:
  "palette_original (graphics_set_fade_level cfg l m s) = palette_original s"
  by (simp add: graphics_set_fade_level_def Let_def)

lemma set_fade_level_ok:
  "hdmi_state_ok s \<Longrightarrow> hdmi_state_ok (graphics_set_fade_level cfg l m s)"
proof -
  assume ok: "hdmi_state_ok s"
  have "hdmi_state_ok (s\<lparr>g_hdmi_fade_level := l, g_hdmi_fade_rows := m\<rparr>)"
    using ok by (simp add: hdmi_state_ok_def)
  then have "hdmi_state_ok (graphics_restore_sync_colors cfg
      (foldl (fade_entry cfg l m) (s\<lparr>g_hdmi_fade_level := l, g_hdmi_fade_rows := m\<rparr>) [0 ..< 256]))"
    by (intro restore_sync_ok fade_loop_ok)
  then show ?thesis
    by (simp add: graphics_set_fade_level_def Let_def hdmi_state_ok_def)
qed

lemma fade_entry_palette:
  "hdmi_state_ok s \<Longrightarrow> i < 256 \<Longrightarrow>
   palette (fade_entry cfg l m s i) ! j =
     (if j = i \<and> \<not> is_hdmi_ctrl_inx i
      then (if unat l > 0 \<and> (unat l \<ge> 48 \<or> m = 0 \<or> row_selected m (i div 16))
            then apply_fade_to_color (palette_original s ! i) l
            else palette_original s ! i)
      else palette s ! j)"
  by (simp add: fade_entry_def Let_def hdmi_state_ok_def)

lemma fade_loop_palette:
  "hdmi_state_ok s \<Longrightarrow> n \<le> 256 \<Longrightarrow>
   palette (foldl (fade_entry cfg l m) s [0 ..< n]) ! j =
     (if j < n \<and> \<not> is_hdmi_ctrl_inx j
      then (if unat l > 0 \<and> (unat l \<ge> 48 \<or> m = 0 \<or> row_selected m (j div 16))
            then apply_fade_to_color (palette_original s ! j) l
            else palette_original s ! j)
      else palette s ! j)"
proof (induction n)
  case 0
  show ?case by simp
next
  case (Suc n)
  then have n: "n < 256" and IH: "palette (foldl (fade_entry cfg l m) s [0 ..< n]) ! j =
     (if j < n \<and> \<not> is_hdmi_ctrl_inx j
      then (if unat l > 0 \<and> (unat l \<ge> 48 \<or> m = 0 \<or> row_selected m (j div 16))
            then apply_fade_to_color (palette_original s ! j) l
            else palette_original s ! j)
      else palette s ! j)"
    by simp_all
  have okn: "hdmi_state_ok (foldl (fade_entry cfg l m) s [0 ..< n])"
    using Suc.prems(1) by (rule fade_loop_ok)
  show ?case
    using IH by (auto simp: fade_entry_palette [OF okn n] less_Suc_eq)
qed

lemma set_fade_level_palette:
  assumes "hdmi_state_ok s" "j < 256" "\<not> is_hdmi_ctrl_inx j"
  shows "palette (graphics_set_fade_level cfg l m s) ! j =
     (if unat l > 0 \<and> (unat l \<ge> 48 \<or> m = 0 \<or> row_selected m (j div 16))
      then apply_fade_to_color (palette_original s ! j) l
      else palette_original s ! j)"
proof -
  have ok1: "hdmi_state_ok (s\<lparr>g_hdmi_fade_level := l, g_hdmi_fade_rows := m\<rparr>)"
    using assms(1) by (simp add: hdmi_state_ok_def)
  show ?thesis
    using assms(2,3) fade_loop_palette [OF ok1, of 256 cfg l m j]
    by (simp add: graphics_set_fade_level_def Let_def)
qed

lemma fade_calls_snoc:
  "fade_calls cfg (cs @ [c]) s = graphics_set_fade_level cfg (fst c) (snd c) (fade_calls cfg cs s)"
  by (simp add: fade_calls_def)

lemma fade_calls_original [simp]:
  "palette_original (fade_calls cfg cs s) = palette_original s"
  by (induction cs rule: rev_induct) (simp add: fade_calls_def, simp add: fade_calls_snoc)

lemma fade_calls_ok: "hdmi_state_ok s \<Longrightarrow> hdmi_state_ok (fade_calls cfg cs s)"
  by (induction cs rule: rev_induct)
     (simp add: fade_calls_def, simp add: fade_calls_snoc set_fade_level_ok)

lemma fade_entry_back_nth:
  "hdmi_state_ok s \<Longrightarrow> i < 256 \<Longrightarrow>
   conv_color_back (fade_entry cfg l m s i) ! k =
     (if \<not> is_hdmi_ctrl_inx i \<and> k = i * 2
        then encode_color cfg (palette (fade_entry cfg l m s i) ! i)
      else if \<not> is_hdmi_ctrl_inx i \<and> k = i * 2 + 1
        then encode_color cfg (palette (fade_entry cfg l m s i) ! i) XOR 0x0003ffffffffffff
      else conv_color_back s ! k)"
  by (simp add: fade_entry_def Let_def hdmi_state_ok_def)

lemma fade_loop_pairs:
  "hdmi_state_ok s \<Longrightarrow> n \<le> 256 \<Longrightarrow> j < n \<Longrightarrow> \<not> is_hdmi_ctrl_inx j \<Longrightarrow>
   conv_color_back (foldl (fade_entry cfg l m) s [0 ..< n]) ! (j * 2 + 1) =
     conv_color_back (foldl (fade_entry cfg l m) s [0 ..< n]) ! (j * 2) XOR 0x0003ffffffffffff"
proof (induction n)
  case 0
  then show ?case by simp
next
  case (Suc n)
  have n: "n < 256" using Suc.prems(2) by simp
  have okn: "hdmi_state_ok (foldl (fade_entry cfg l m) s [0 ..< n])"
    using Suc.prems(1) by (rule fade_loop_ok)
  show ?case
  proof (cases "j = n")
    case True
    with Suc.prems(4) show ?thesis
      by (simp add: fade_entry_back_nth [OF okn n])
  next
    case False
    with Suc.prems have jn: "j < n" by simp
    have k: "j * 2 \<noteq> n * 2" "j * 2 \<noteq> n * 2 + 1" "j * 2 + 1 \<noteq> n * 2" "j * 2 + 1 \<noteq> n * 2 + 1"
      using jn by presburger+
    have IH: "conv_color_back (foldl (fade_entry cfg l m) s [0 ..< n]) ! (j * 2 + 1) =
       conv_color_back (foldl (fade_entry cfg l m) s [0 ..< n]) ! (j * 2) XOR 0x0003ffffffffffff"
      using Suc.IH [OF Suc.prems(1) _ jn Suc.prems(4)] n by simp
    show ?thesis
      using IH k by (simp add: fade_entry_back_nth [OF okn n])
  qed
qed

lemma set_fade_level_pairs:
  assumes "hdmi_state_ok s" "j < 256" "\<not> is_hdmi_ctrl_inx j"
  shows "conv_color_back (graphics_set_fade_level cfg l m s) ! (j * 2 + 1) =
         conv_color_back (graphics_set_fade_level cfg l m s) ! (j * 2) XOR 0x0003ffffffffffff"
proof -
  have ok1: "hdmi_state_ok (s\<lparr>g_hdmi_fade_level := l, g_hdmi_fade_rows := m\<rparr>)"
    using assms(1) by (simp add: hdmi_state_ok_def)
  have r: "j * 2 < 480 \<or> 487 < j * 2" "Suc (j * 2) < 480 \<or> 487 < Suc (j * 2)"
    using assms(3) by (auto simp: is_hdmi_ctrl_inx_def)
  show ?thesis
    using fade_loop_pairs [OF ok1 _ assms(2,3), where cfg = cfg and l = l and m = m]
    by (simp add: graphics_set_fade_level_def Let_def graphics_restore_sync_colors_def
        write_sync_words_nth [OF r(1)] write_sync_words_nth [OF r(2)])
qed

text \<open>
  C6. Whatever fades were applied before, a call with fade level 0 and any row mask sets
  every non-reserved palette entry to the original colour stored for it; no fade call
  changes a stored original.
\<close>

theorem fade_level_zero_restores_originals:
  assumes "hdmi_state_ok s" "i < 256" "\<not> is_hdmi_ctrl_inx i"
  shows "palette (graphics_set_fade_level cfg 0 m (fade_calls cfg cs s)) ! i = palette_original s ! i \<and>
         palette_original (fade_calls cfg cs s) = palette_original s \<and>
         palette_original (graphics_set_fade_level cfg 0 m (fade_calls cfg cs s)) = palette_original s"
  using set_fade_level_palette [OF fade_calls_ok [OF assms(1), of cfg cs] assms(2,3),
      where cfg = cfg and l = 0 and m = m]
  by simp

theorem fade_level_zero_restores_originals_witness:
  "hdmi_state_ok (graphics_set_palette_hdmi board0 5 0xFF0000 hdmi_init_state) \<and>
   (5 :: nat) < 256 \<and> \<not> is_hdmi_ctrl_inx 5 \<and>
   palette (fade_calls board0 [(20, 0)]
              (graphics_set_palette_hdmi board0 5 0xFF0000 hdmi_init_state)) ! 5 = 0xCB0000 \<and>
   palette (graphics_set_fade_level board0 0 0xFFFF
              (fade_calls board0 [(20, 0)]
                 (graphics_set_palette_hdmi board0 5 0xFF0000 hdmi_init_state))) ! 5 = 0xFF0000"
proof -
  let ?s = "graphics_set_palette_hdmi board0 5 0xFF0000 hdmi_init_state"
  have ok: "hdmi_state_ok ?s"
    by (rule set_palette_ok) (simp add: hdmi_state_ok_def hdmi_init_state_def)
  have c: "\<not> is_hdmi_ctrl_inx 5"
    by (simp add: is_hdmi_ctrl_inx_def)
  have orig: "palette_original ?s ! 5 = 0xFF0000"
    by (simp add: graphics_set_palette_hdmi_def Let_def hdmi_init_state_def)
  have faded: "palette (fade_calls board0 [(20, 0)] ?s) ! 5 = 0xCB0000"
    using set_fade_level_palette [OF ok _ c, where cfg = board0 and l = 20 and m = 0]
    by (simp add: fade_calls_def orig apply_fade_to_color_def fade_gamma_table_def)
  show ?thesis
    using fade_level_zero_restores_originals [OF ok _ c,
        where cfg = board0 and m = "0xFFFF" and cs = "[(20, 0)]"]
      ok c orig faded
    by simp
qed

text \<open>
  C10. After a palette write to a non-reserved index, and after a fade call for every
  non-reserved index, the second 64-bit word of the index's pair in the back buffer is
  the first word XOR \<open>0x0003ffffffffffff\<close>.
\<close>

theorem clut_pair_second_is_complement:
  assumes "hdmi_state_ok s"
  shows "(\<not> is_hdmi_ctrl_inx (unat i) \<longrightarrow>
            conv_color_back (graphics_set_palette_hdmi cfg i c s) ! (unat i * 2 + 1) =
              conv_color_back (graphics_set_palette_hdmi cfg i c s) ! (unat i * 2)
                XOR 0x0003ffffffffffff) \<and>
         (\<forall>j < 256. \<not> is_hdmi_ctrl_inx j \<longrightarrow>
            conv_color_back (graphics_set_fade_level cfg l m s) ! (j * 2 + 1) =
              conv_color_back (graphics_set_fade_level cfg l m s) ! (j * 2)
                XOR 0x0003ffffffffffff)"
  using set_fade_level_pairs [OF assms, where cfg = cfg and l = l and m = m]
  by (simp add: set_palette_back_nth [OF assms])

theorem clut_pair_second_is_complement_witness:
  "hdmi_state_ok hdmi_init_state \<and> \<not> is_hdmi_ctrl_inx (unat (5 :: uint8_t)) \<and>
   conv_color_back (graphics_set_palette_hdmi board0 5 0xFF0000 hdmi_init_state) ! (unat (5 :: uint8_t) * 2 + 1) =
     conv_color_back (graphics_set_palette_hdmi board0 5 0xFF0000 hdmi_init_state) ! (unat (5 :: uint8_t) * 2)
       XOR 0x0003ffffffffffff \<and>
   (7 :: nat) < 256 \<and> \<not> is_hdmi_ctrl_inx 7 \<and>
   conv_color_back (graphics_set_fade_level board0 20 0 hdmi_init_state) ! (7 * 2 + 1) =
     conv_color_back (graphics_set_fade_level board0 20 0 hdmi_init_state) ! (7 * 2)
       XOR 0x0003ffffffffffff"
proof -
  have ok0: "hdmi_state_ok hdmi_init_state"
    by (simp add: hdmi_state_ok_def hdmi_init_state_def)
  have c: "\<not> is_hdmi_ctrl_inx (unat (5 :: uint8_t))" "\<not> is_hdmi_ctrl_inx 7" "(7 :: nat) < 256"
    by (simp_all add: is_hdmi_ctrl_inx_def)
  have t: "(\<not> is_hdmi_ctrl_inx (unat (5 :: uint8_t)) \<longrightarrow>
            conv_color_back (graphics_set_palette_hdmi board0 5 0xFF0000 hdmi_init_state) ! (unat (5 :: uint8_t) * 2 + 1) =
              conv_color_back (graphics_set_palette_hdmi board0 5 0xFF0000 hdmi_init_state) ! (unat (5 :: uint8_t) * 2)
                XOR 0x0003ffffffffffff) \<and>
         (\<forall>j < 256. \<not> is_hdmi_ctrl_inx j \<longrightarrow>
            conv_color_back (graphics_set_fade_level board0 20 0 hdmi_init_state) ! (j * 2 + 1) =
              conv_color_back (graphics_set_fade_level board0 20 0 hdmi_init_state) ! (j * 2)
                XOR 0x0003ffffffffffff)"
    by (rule clut_pair_second_is_complement [OF ok0])
  from t ok0 c show ?thesis by blast
qed


section \<open>Stream reads\<close>

lemmas stream_defs =
  sd_async_stream_read_def stream_read_copy_def sd_async_stream_available_def
  unread_a_def unread_b_def unread_other_def

lemmas stream_defs_w =
  sd_async_stream_read_w_def stream_read_copy_w_def sd_async_stream_available_w_def
  unread_a_w_def unread_b_w_def unread_other_w_def

lemma read_le_request: "fst (sd_async_stream_read (Some s) dest n) \<le> int n"
  by (simp add: stream_defs Let_def)

lemma read_le_available:
  "0 < sd_async_stream_available (Some s) \<Longrightarrow>
   fst (sd_async_stream_read (Some s) dest n) \<le> min (int n) (sd_async_stream_available (Some s))"
  by (cases "active_buffer s = 0"; simp add: stream_defs Let_def; arith)

lemma read_le_other:
  "sd_async_stream_available (Some s) \<le> 0 \<Longrightarrow>
   fst (sd_async_stream_read (Some s) dest n) \<le> min (int n) (max 0 (unread_other s))"
  by (cases "active_buffer s = 0"; simp add: stream_defs Let_def; arith)

lemma read_w_le_request: "fst (sd_async_stream_read_w (Some s) dest n) \<le> int n"
  by (simp add: stream_defs_w Let_def)

lemma read_w_le_available:
  "0 < sd_async_stream_available_w (Some s) \<Longrightarrow>
   fst (sd_async_stream_read_w (Some s) dest n) \<le> min (int n) (sd_async_stream_available_w (Some s))"
  by (cases "active_buffer_w s = 0"; simp add: stream_defs_w Let_def; arith)

lemma read_w_le_other:
  "sd_async_stream_available_w (Some s) \<le> 0 \<Longrightarrow>
   fst (sd_async_stream_read_w (Some s) dest n) \<le> min (int n) (max 0 (unread_other_w s))"
  by (cases "active_buffer_w s = 0"; simp add: stream_defs_w Let_def; arith)

lemma read_available_after:
  "0 < fst (sd_async_stream_read (Some s) dest n) \<Longrightarrow>
   sd_async_stream_available (snd (snd (sd_async_stream_read (Some s) dest n))) =
     (if 0 < sd_async_stream_available (Some s) then sd_async_stream_available (Some s)
      else unread_other s) - fst (sd_async_stream_read (Some s) dest n)"
  by (cases "active_buffer s = 0"; simp add: stream_defs Let_def split: if_splits; arith)

lemma read_w_available_after:
  "0 < fst (sd_async_stream_read_w (Some s) dest n) \<Longrightarrow>
   sd_async_stream_available_w (snd (snd (sd_async_stream_read_w (Some s) dest n))) =
     (if 0 < sd_async_stream_available_w (Some s) then sd_async_stream_available_w (Some s)
      else unread_other_w s) - fst (sd_async_stream_read_w (Some s) dest n)"
  by (cases "active_buffer_w s = 0"; simp add: stream_defs_w Let_def split: if_splits; arith)

lemma read_eof_drained:
  "state s = STREAM_STATE_EOF \<Longrightarrow> unread_a s \<le> 0 \<Longrightarrow> unread_b s \<le> 0 \<Longrightarrow>
   fst (sd_async_stream_read (Some s) dest n) = - 1"
  by (cases "active_buffer s = 0"; simp add: stream_defs Let_def; arith)

lemma read_w_eof_drained:
  "state_w s = STREAM_STATE_EOF_w \<Longrightarrow> unread_a_w s \<le> 0 \<Longrightarrow> unread_b_w s \<le> 0 \<Longrightarrow>
   dest \<noteq> None \<Longrightarrow> 0 < n \<Longrightarrow>
   fst (sd_async_stream_read_w (Some s) dest n) = - 1"
  by (cases "active_buffer_w s = 0"; simp add: stream_defs_w Let_def; arith)

lemma read_w_guard:
  "dest = None \<or> n = 0 \<Longrightarrow> sd_async_stream_read_w (Some s) dest n = (0, dest, Some s)"
  by (simp add: sd_async_stream_read_w_def)

lemma read_error:
  "state s = STREAM_STATE_ERROR \<Longrightarrow> sd_async_stream_read (Some s) dest n = (- 1, dest, Some s)"
  by (simp add: sd_async_stream_read_def)

lemma read_w_error:
  "state_w s = STREAM_STATE_ERROR_w \<Longrightarrow>
   sd_async_stream_read_w (Some s) dest n =
     (if dest = None \<or> n = 0 then 0 else - 1, dest, Some s)"
  by (simp add: sd_async_stream_read_w_def)

lemma seek_w_error:
  "state_w s = STREAM_STATE_ERROR_w \<Longrightarrow>
   sd_async_stream_seek_w core1 (Some s) position = Some (- 1, Some s)"
  by (simp add: sd_async_stream_seek_w_def)

lemma seek_error_not_absorbing:
  "state s = STREAM_STATE_ERROR \<Longrightarrow> file_p s \<noteq> None \<Longrightarrow>
   map_option state (snd (sd_async_stream_seek (Some s) position FR_OK)) =
     Some (if position < file_size s then STREAM_STATE_FILLING_A else STREAM_STATE_EOF)"
  by (simp add: sd_async_stream_seek_def Let_def)

text \<open>
  C2, as the specification states it, fails: a read that finds the active buffer
  exhausted switches to the other buffer, while \<^verbatim>\<open>sd_async_stream_available\<close> counts the
  active buffer only. With buffer A consumed and buffer B full, \<open>available\<close> is 0 and a
  read of 10 bytes returns 10, in both variants.
\<close>

theorem read_exceeds_available_counterexample:
  "sd_async_stream_available (Some stream_a_drained) = 0 \<and>
   fst (sd_async_stream_read (Some stream_a_drained) (Some (replicate 10 0)) 10) = 10 \<and>
   \<not> fst (sd_async_stream_read (Some stream_a_drained) (Some (replicate 10 0)) 10)
       \<le> min (int 10) (sd_async_stream_available (Some stream_a_drained)) \<and>
   sd_async_stream_available_w (Some stream_a_drained_w) = 0 \<and>
   fst (sd_async_stream_read_w (Some stream_a_drained_w) (Some (replicate 10 0)) 10) = 10 \<and>
   \<not> fst (sd_async_stream_read_w (Some stream_a_drained_w) (Some (replicate 10 0)) 10)
       \<le> min (int 10) (sd_async_stream_available_w (Some stream_a_drained_w))"
  by (simp add: stream_defs stream_a_drained_def stream_defs_w stream_a_drained_w_def Let_def)

text \<open>
  C2, amended. In both variants a read never returns more than the requested count. If
  \<open>available\<close> was positive before the call, the result is at most
  \<open>min N available\<close>. If it was not, the read may switch buffers, and the result is at
  most \<open>min N u\<close>, where \<open>u\<close> is the number of unread bytes of the other buffer (or 0 if
  that is negative).
\<close>

theorem read_bounded_by_request_and_unread:
  "fst (sd_async_stream_read (Some s) dest n) \<le> int n \<and>
   (0 < sd_async_stream_available (Some s) \<longrightarrow>
      fst (sd_async_stream_read (Some s) dest n) \<le> min (int n) (sd_async_stream_available (Some s))) \<and>
   (sd_async_stream_available (Some s) \<le> 0 \<longrightarrow>
      fst (sd_async_stream_read (Some s) dest n) \<le> min (int n) (max 0 (unread_other s))) \<and>
   fst (sd_async_stream_read_w (Some w) dest n) \<le> int n \<and>
   (0 < sd_async_stream_available_w (Some w) \<longrightarrow>
      fst (sd_async_stream_read_w (Some w) dest n)
        \<le> min (int n) (sd_async_stream_available_w (Some w))) \<and>
   (sd_async_stream_available_w (Some w) \<le> 0 \<longrightarrow>
      fst (sd_async_stream_read_w (Some w) dest n) \<le> min (int n) (max 0 (unread_other_w w)))"
  using read_le_request [of s dest n] read_le_available [of s dest n] read_le_other [of s dest n]
    read_w_le_request [of w dest n] read_w_le_available [of w dest n] read_w_le_other [of w dest n]
  by blast

theorem read_bounded_by_request_and_unread_witness:
  "0 < sd_async_stream_available (Some stream_a_fresh) \<and>
   sd_async_stream_available (Some stream_a_fresh) = 8092 \<and>
   fst (sd_async_stream_read (Some stream_a_fresh) (Some (replicate 10 0)) 10)
     \<le> min (int 10) (sd_async_stream_available (Some stream_a_fresh)) \<and>
   0 < sd_async_stream_available_w (Some stream_a_fresh_w) \<and>
   fst (sd_async_stream_read_w (Some stream_a_fresh_w) (Some (replicate 10 0)) 10)
     \<le> min (int 10) (sd_async_stream_available_w (Some stream_a_fresh_w)) \<and>
   sd_async_stream_available (Some stream_a_drained) \<le> 0 \<and>
   unread_other stream_a_drained = 8192 \<and>
   fst (sd_async_stream_read (Some stream_a_drained) (Some (replicate 10 0)) 10)
     \<le> min (int 10) (max 0 (unread_other stream_a_drained)) \<and>
   sd_async_stream_available_w (Some stream_a_drained_w) \<le> 0 \<and>
   fst (sd_async_stream_read_w (Some stream_a_drained_w) (Some (replicate 10 0)) 10)
     \<le> min (int 10) (max 0 (unread_other_w stream_a_drained_w))"
proof -
  have a: "sd_async_stream_available (Some stream_a_fresh) = 8092"
    "sd_async_stream_available_w (Some stream_a_fresh_w) = 8092"
    "sd_async_stream_available (Some stream_a_drained) = 0"
    "sd_async_stream_available_w (Some stream_a_drained_w) = 0"
    "unread_other stream_a_drained = 8192"
    by (simp_all add: sd_async_stream_available_def sd_async_stream_available_w_def
        stream_a_fresh_def stream_a_fresh_w_def stream_a_drained_def stream_a_drained_w_def
        unread_other_def unread_b_def)
  show ?thesis
    using read_bounded_by_request_and_unread
        [of stream_a_fresh "Some (replicate 10 0)" 10 stream_a_fresh_w]
      read_bounded_by_request_and_unread
        [of stream_a_drained "Some (replicate 10 0)" 10 stream_a_drained_w]
    by (simp add: a)
qed

text \<open>
  C3, as the specification states it, fails in the same situation: \<open>available\<close> is 0
  before the read, the read returns 10, and \<open>available\<close> is 8182 afterwards, not
  \<open>0 - 10\<close>.
\<close>

theorem available_after_read_counterexample:
  "0 < fst (sd_async_stream_read (Some stream_a_drained) (Some (replicate 10 0)) 10) \<and>
   sd_async_stream_available (Some stream_a_drained) = 0 \<and>
   sd_async_stream_available
     (snd (snd (sd_async_stream_read (Some stream_a_drained) (Some (replicate 10 0)) 10))) = 8182 \<and>
   sd_async_stream_available
     (snd (snd (sd_async_stream_read (Some stream_a_drained) (Some (replicate 10 0)) 10)))
     \<noteq> sd_async_stream_available (Some stream_a_drained)
        - fst (sd_async_stream_read (Some stream_a_drained) (Some (replicate 10 0)) 10) \<and>
   0 < fst (sd_async_stream_read_w (Some stream_a_drained_w) (Some (replicate 10 0)) 10) \<and>
   sd_async_stream_available_w
     (snd (snd (sd_async_stream_read_w (Some stream_a_drained_w) (Some (replicate 10 0)) 10)))
     \<noteq> sd_async_stream_available_w (Some stream_a_drained_w)
        - fst (sd_async_stream_read_w (Some stream_a_drained_w) (Some (replicate 10 0)) 10)"
  by (simp add: stream_defs stream_a_drained_def stream_defs_w stream_a_drained_w_def Let_def)

text \<open>
  C3, amended. In both variants, after a read that returned a positive count \<open>r\<close>:
  if \<open>available\<close> was positive before the call, it is smaller by exactly \<open>r\<close>
  afterwards; if it was not (the read switched buffers), it is afterwards the number of
  unread bytes the other buffer held before the call, minus \<open>r\<close>.
\<close>

theorem available_after_successful_read:
  "(0 < fst (sd_async_stream_read (Some s) dest n) \<longrightarrow>
      sd_async_stream_available (snd (snd (sd_async_stream_read (Some s) dest n))) =
        (if 0 < sd_async_stream_available (Some s) then sd_async_stream_available (Some s)
         else unread_other s) - fst (sd_async_stream_read (Some s) dest n)) \<and>
   (0 < fst (sd_async_stream_read_w (Some w) dest n) \<longrightarrow>
      sd_async_stream_available_w (snd (snd (sd_async_stream_read_w (Some w) dest n))) =
        (if 0 < sd_async_stream_available_w (Some w) then sd_async_stream_available_w (Some w)
         else unread_other_w w) - fst (sd_async_stream_read_w (Some w) dest n))"
  using read_available_after [of s dest n] read_w_available_after [of w dest n]
  by blast

theorem available_after_successful_read_witness:
  "0 < fst (sd_async_stream_read (Some stream_a_fresh) (Some (replicate 10 0)) 10) \<and>
   fst (sd_async_stream_read (Some stream_a_fresh) (Some (replicate 10 0)) 10) = 10 \<and>
   sd_async_stream_available (Some stream_a_fresh) = 8092 \<and>
   sd_async_stream_available
     (snd (snd (sd_async_stream_read (Some stream_a_fresh) (Some (replicate 10 0)) 10))) = 8082 \<and>
   0 < fst (sd_async_stream_read_w (Some stream_a_fresh_w) (Some (replicate 10 0)) 10) \<and>
   sd_async_stream_available_w (Some stream_a_fresh_w) = 8092 \<and>
   sd_async_stream_available_w
     (snd (snd (sd_async_stream_read_w (Some stream_a_fresh_w) (Some (replicate 10 0)) 10))) = 8082"
proof -
  have a: "sd_async_stream_available (Some stream_a_fresh) = 8092"
    "sd_async_stream_available_w (Some stream_a_fresh_w) = 8092"
    by (simp_all add: sd_async_stream_available_def sd_async_stream_available_w_def
        stream_a_fresh_def stream_a_fresh_w_def stream_a_drained_def stream_a_drained_w_def)
  have r: "fst (sd_async_stream_read (Some stream_a_fresh) (Some (replicate 10 0)) 10) = 10"
    "fst (sd_async_stream_read_w (Some stream_a_fresh_w) (Some (replicate 10 0)) 10) = 10"
    by (simp_all add: sd_async_stream_read_def stream_read_copy_def sd_async_stream_read_w_def
        stream_read_copy_w_def stream_a_fresh_def stream_a_fresh_w_def stream_a_drained_def
        stream_a_drained_w_def Let_def)
  show ?thesis
    using available_after_successful_read
        [of stream_a_fresh "Some (replicate 10 0)" 10 stream_a_fresh_w]
    by (simp add: a r)
qed

text \<open>
  C4, as the specification states it, fails in the worker variant: its read returns 0
  for a request of zero bytes before it looks at the stream, also at the end of the file
  with both buffers drained.
\<close>

theorem read_at_eof_counterexample:
  "state_w stream_at_eof_w = STREAM_STATE_EOF_w \<and>
   sd_async_stream_available_w (Some stream_at_eof_w) = 0 \<and>
   unread_a_w stream_at_eof_w = 0 \<and> unread_b_w stream_at_eof_w = 0 \<and>
   fst (sd_async_stream_read_w (Some stream_at_eof_w) (Some (replicate 10 0)) 0) = 0 \<and>
   fst (sd_async_stream_read_w (Some stream_at_eof_w) (Some (replicate 10 0)) 0) \<noteq> - 1"
  by (simp add: stream_defs_w stream_at_eof_w_def)

text \<open>
  C4, amended. For a stream in state \<^verbatim>\<open>EOF\<close> neither of whose buffers holds unread
  bytes, the pump variant's read returns -1 for every destination pointer and every
  count, 0 included; the worker variant's read returns -1 for every destination other
  than \<^verbatim>\<open>NULL\<close> and every count greater than 0. For a \<^verbatim>\<open>NULL\<close> destination or a count of 0
  the worker variant returns 0 in every state and leaves the stream as it is.
\<close>

theorem read_at_eof_returns_sentinel:
  "(state s = STREAM_STATE_EOF \<and> unread_a s \<le> 0 \<and> unread_b s \<le> 0 \<longrightarrow>
      fst (sd_async_stream_read (Some s) dest n) = - 1) \<and>
   (state_w w = STREAM_STATE_EOF_w \<and> unread_a_w w \<le> 0 \<and> unread_b_w w \<le> 0 \<and>
    dest \<noteq> None \<and> 0 < n \<longrightarrow>
      fst (sd_async_stream_read_w (Some w) dest n) = - 1) \<and>
   (dest = None \<or> n = 0 \<longrightarrow> sd_async_stream_read_w (Some w) dest n = (0, dest, Some w))"
  using read_eof_drained [of s dest n] read_w_eof_drained [of w dest n] read_w_guard [of dest n w]
  by blast

theorem read_at_eof_returns_sentinel_witness:
  "state stream_at_eof = STREAM_STATE_EOF \<and>
   unread_a stream_at_eof \<le> 0 \<and> unread_b stream_at_eof \<le> 0 \<and>
   fst (sd_async_stream_read (Some stream_at_eof) None 0) = - 1 \<and>
   state_w stream_at_eof_w = STREAM_STATE_EOF_w \<and>
   unread_a_w stream_at_eof_w \<le> 0 \<and> unread_b_w stream_at_eof_w \<le> 0 \<and>
   fst (sd_async_stream_read_w (Some stream_at_eof_w) (Some (replicate 10 0)) 10) = - 1 \<and>
   sd_async_stream_read_w (Some stream_at_eof_w) None 10 = (0, None, Some stream_at_eof_w)"
proof -
  have a: "state stream_at_eof = STREAM_STATE_EOF"
    "unread_a stream_at_eof \<le> 0" "unread_b stream_at_eof \<le> 0"
    "state_w stream_at_eof_w = STREAM_STATE_EOF_w"
    "unread_a_w stream_at_eof_w \<le> 0" "unread_b_w stream_at_eof_w \<le> 0"
    by (simp_all add: stream_at_eof_def stream_at_eof_w_def unread_a_def unread_b_def
        unread_a_w_def unread_b_w_def)
  show ?thesis
    using read_at_eof_returns_sentinel [of stream_at_eof None 0 stream_at_eof_w]
      read_at_eof_returns_sentinel [of stream_at_eof "Some (replicate 10 0)" 10 stream_at_eof_w]
      read_at_eof_returns_sentinel [of stream_at_eof None 10 stream_at_eof_w]
    by (simp add: a)
qed

section \<open>The error state of a stream\<close>

text \<open>
  C5. The worker variant's seek refuses a stream in state \<^verbatim>\<open>ERROR\<close>, and both reads
  leave such a stream as it is (lemmas \<open>seek_w_error\<close>, \<open>read_error\<close> and
  \<open>read_w_error\<close>). The pump variant's seek has no such test
  (\<open>seek_error_not_absorbing\<close>): on the stream below, which is in state \<^verbatim>\<open>ERROR\<close> with
  its file still open, a seek to position 0 that \<^verbatim>\<open>f_lseek\<close> accepts returns 0 and leaves
  the stream in state \<^verbatim>\<open>FILLING_A\<close>.
\<close>

theorem seek_revives_error_stream:
  "state stream_in_error = STREAM_STATE_ERROR \<and>
   file_p stream_in_error = Some 1 \<and>
   fst (sd_async_stream_seek (Some stream_in_error) 0 FR_OK) = 0 \<and>
   map_option state (snd (sd_async_stream_seek (Some stream_in_error) 0 FR_OK)) =
     Some STREAM_STATE_FILLING_A"
  by (simp add: sd_async_stream_seek_def stream_in_error_def stream_a_fresh_def
      stream_a_drained_def Let_def)

section \<open>One-shot requests for a path that cannot be opened\<close>







lemma next_id_nonzero:
  fixes nxt :: uint32_t
  shows "(if nxt + 1 = 0 then 1 else nxt + 1) \<noteq> 0"
  by simp

lemma process_oneshot_work_id [simp]: "id_r (process_oneshot_work sd r) = id_r r"
  by (simp add: process_oneshot_work_def Let_def split: option.splits)



lemma core1_step_length [simp]:
  "length (requests (core1_request_step sd g n)) = length (requests g)"
  by (simp add: core1_request_step_def Let_def)

lemma core1_step_next [simp]:
  "g_next_req_id (core1_request_step sd g n) = g_next_req_id g"
  by (simp add: core1_request_step_def Let_def)





lemma core1_loop_length [simp]:
  "length (requests (foldl (core1_request_step sd) g [0 ..< n])) = length (requests g)"
  by (induction n) simp_all

lemma core1_loop_next [simp]:
  "g_next_req_id (foldl (core1_request_step sd) g [0 ..< n]) = g_next_req_id g"
  by (induction n) simp_all




















text \<open>
  The scenario of the specification: three requests for a missing file with byte counts
  100, 0 and 50, submitted to the freshly initialised table in two different orders and
  then served by the worker.
\<close>

lemma oneshot_scenario_100_0_50:
  "map (sd_async_get_result
     (core1_process_requests empty_card
        (submit_all sd_async_initial
           [(Some ''nofile.dat'', Some (replicate 100 0), 100), (Some ''nofile.dat'', Some [], 0),
            (Some ''nofile.dat'', Some (replicate 50 0), 50)]))) [1, 2, 3] = [- 1, - 1, - 1]"
  by code_simp

lemma oneshot_scenario_0_50_100:
  "map (sd_async_get_result
     (core1_process_requests empty_card
        (submit_all sd_async_initial
           [(Some ''nofile.dat'', Some [], 0), (Some ''nofile.dat'', Some (replicate 50 0), 50),
            (Some ''nofile.dat'', Some (replicate 100 0), 100)]))) [1, 2, 3] = [- 1, - 1, - 1]"
  by code_simp

lemma oneshot_scenario_states:
  "map state_r
     (requests (core1_process_requests empty_card
        (submit_all sd_async_initial
           (map (\<lambda>c. (Some ''nofile.dat'', Some (replicate c 0), c)) [100, 0, 50]))))
   = [REQ_STATE_ERROR, REQ_STATE_ERROR, REQ_STATE_ERROR, REQ_STATE_FREE, REQ_STATE_FREE,
      REQ_STATE_FREE, REQ_STATE_FREE, REQ_STATE_FREE]"
  by code_simp

end
